theory Spec2Isabelle
  imports Main
begin

section \<open>The device sync client of the control panel\<close>

text \<open>
  A shallow embedding of the client script of the control panel: the module-level
  variables \<open>masterStatus\<close>, \<open>deviceData\<close> and \<open>logs\<close> become fields of one
  state record that every operation takes and returns. The network is an argument: each
  operation that awaits a \<open>fetch\<close> takes the outcome of that fetch. Every fetch that
  the code issues is appended to the field \<open>requests\<close>. The registry is the list of
  the entries of the object \<open>deviceData\<close>, in the order of \<open>Object.entries\<close>;
  the keys of an object are distinct, which the statements about the whole registry assume.

  Of the page only two things are kept: the set of element ids that
  \<open>document.getElementById\<close> finds, and the set of those elements that carry the
  class \<open>loading\<close>. The functions that only repaint the page
  (\<open>updateMasterStatus\<close>, \<open>updateLogsDisplay\<close>, \<open>updateOverviewDisplay\<close>,
  \<open>updateAllDeviceDisplays\<close>, \<open>updateSingleDeviceDisplay\<close>, the notification element) are
  taken to complete without an exception and do not appear. Readings of the wall clock and of
  the random generator (the \<open>timestamp\<close> and \<open>id\<close> of a log entry, the
  \<open>timestamp\<close> of a request body) are left out: no branch reads them.

  The lookup \<open>deviceData[deviceType]\<close> in \<open>sendDeviceCommand\<close> and
  \<open>handleCommandResponse\<close> follows the language: it finds an own key of the registry,
  or else a member that every object literal inherits from \<open>Object.prototype\<close>. In
  \<open>refreshSingleDevice\<close> the lookup is among the own keys only: the assignments that
  the code would make to an inherited member are not followed. An asynchronous operation is
  run from its call to its return without another task in between.
\<close>

subsection \<open>Configuration\<close>

record config =
  masterDeviceUrl :: string
  updateInterval :: nat
  logMaxEntries :: nat
  authToken :: "string option"
  timeout :: nat

definition CONFIG :: config where
  "CONFIG = \<lparr>masterDeviceUrl = ''http://localhost:8080'', updateInterval = 5000,
     logMaxEntries = 100, authToken = None, timeout = 10000\<rparr>"

subsection \<open>Data\<close>

record instanceRecord =
  inst_id :: string
  inst_name :: "string option"
  inst_status :: string
  details :: "string option"

record device =
  dev_id :: string
  name :: string
  status :: string
  endpoint :: string
  dev_type :: string
  instances :: "instanceRecord list"
  lastSeen :: "string option"
  capabilities :: "string list"

record logEntry =
  message :: string
  log_type :: string

text \<open>A request as \<open>fetch\<close> receives it: method, URL and the fields of the JSON body.
  \<open>JSON.stringify\<close> leaves out a \<open>device_id\<close> that is \<open>undefined\<close>.\<close>

datatype reqBody =
    NoBody
  | StatusBody string
  | CommandBody string "(string \<times> string) list" "string option"

record request =
  req_method :: string
  req_url :: string
  req_body :: reqBody

record state =
  masterStatus :: string
  deviceData :: "(string \<times> device) list"
  logs :: "logEntry list"
  requests :: "request list"
  elements :: "string set"
  loading :: "string set"
  timers :: "string list"

text \<open>
  What a fetch gives back. The promise rejects (network error, abort at the timeout) with
  an error message, or resolves with a response; \<open>response.ok\<close> is the status code
  being in 200..299; \<open>response.json()\<close> throws on a body that is not JSON, or
  returns the parsed value, which is \<open>null\<close> or an object with the fields the
  code reads. A field that is present has the type the interface gives it (a status is a
  string, \<open>instances\<close> an array of instance objects); a body that is a number, a string,
  a boolean or an array reads like an object with none of the fields.
\<close>

datatype 'a json = JsonNull | JsonObj 'a

datatype 'a parsed = Unparsable string | Parsed "'a json"

record 'a response =
  http_status :: nat
  statusText :: string
  json_body :: "'a parsed"

datatype 'a fetched = Rejected string | Resolved "'a response"

definition ok :: "'a response \<Rightarrow> bool" where
  "ok r = (200 \<le> http_status r \<and> http_status r \<le> 299)"

text \<open>The body of a status response, and the object \<open>device_info\<close> inside it: each
  field of a device record that the object may carry.\<close>

record deviceInfo =
  di_id :: "string option"
  di_name :: "string option"
  di_status :: "string option"
  di_endpoint :: "string option"
  di_type :: "string option"
  di_instances :: "instanceRecord list option"
  di_lastSeen :: "string option option"
  di_capabilities :: "string list option"

record statusData =
  resp_status :: "string option"
  resp_error :: "string option"
  last_seen :: "string option"
  resp_instances :: "instanceRecord list option"
  device_info :: "deviceInfo option"

record statusResult =
  deviceType :: string
  res_status :: "statusData json"
  success :: bool

text \<open>The body of a command response.\<close>

record commandData =
  cmd_error :: "string option"
  download_url :: "string option"
  filename :: "string option"
  clients :: "string list option"
  payloads :: "string list option"

datatype exn = Error string

datatype cmdReturn = ReturnFalse | ReturnResult "commandData json"

subsection \<open>JavaScript helpers\<close>

text \<open>A string operand of \<open>||\<close> is falsy when it is absent or empty.\<close>

definition truthy :: "string option \<Rightarrow> bool" where
  "truthy v = (case v of None \<Rightarrow> False | Some x \<Rightarrow> x \<noteq> [])"

definition orElse :: "string option \<Rightarrow> string \<Rightarrow> string" where
  "orElse v d = (case v of None \<Rightarrow> d | Some x \<Rightarrow> if x = [] then d else x)"

definition digit_char :: "nat \<Rightarrow> char" where
  "digit_char n = ''0123456789'' ! n"

fun string_of_nat :: "nat \<Rightarrow> string" where
  "string_of_nat n =
     (if n < 10 then [digit_char n] else string_of_nat (n div 10) @ [digit_char (n mod 10)])"

declare string_of_nat.simps [simp del]

text \<open>The message of the TypeError for a property read on \<open>null\<close> or
  \<open>undefined\<close>.\<close>

definition nullTypeError :: "string \<Rightarrow> string \<Rightarrow> exn" where
  "nullTypeError v prop =
     Error (''Cannot read properties of '' @ v @ '' (reading '' @ [CHR 0x27] @ prop
              @ [CHR 0x27] @ '')'')"

text \<open>A value that may be \<open>undefined\<close>, as a template literal and
  \<open>getElementById\<close> turn it into a string.\<close>

definition printed :: "string option \<Rightarrow> string" where
  "printed v = (case v of None \<Rightarrow> ''undefined'' | Some x \<Rightarrow> x)"

text \<open>The members of \<open>Object.prototype\<close>, each with its property \<open>name\<close>:
  all are functions, named as the key except for \<open>constructor\<close>, but
  \<open>__proto__\<close>, whose value for an object literal is \<open>Object.prototype\<close> itself
  and has no \<open>name\<close>. None of them has a property \<open>status\<close>, \<open>id\<close> or
  \<open>endpoint\<close>.\<close>

definition objectPrototype :: "(string \<times> string option) list" where
  "objectPrototype =
    [(''constructor'', Some ''Object''),
     (''__defineGetter__'', Some ''__defineGetter__''),
     (''__defineSetter__'', Some ''__defineSetter__''),
     (''hasOwnProperty'', Some ''hasOwnProperty''),
     (''__lookupGetter__'', Some ''__lookupGetter__''),
     (''__lookupSetter__'', Some ''__lookupSetter__''),
     (''isPrototypeOf'', Some ''isPrototypeOf''),
     (''propertyIsEnumerable'', Some ''propertyIsEnumerable''),
     (''toString'', Some ''toString''),
     (''valueOf'', Some ''valueOf''),
     (''toLocaleString'', Some ''toLocaleString''),
     (''__proto__'', None)]"

text \<open>The value of \<open>deviceData[deviceType]\<close>: an own key comes first, then the
  prototype; an inherited member is given by its \<open>name\<close>.\<close>

datatype property = Undefined | OwnDevice device | Inherited "string option"

definition getProperty :: "(string \<times> device) list \<Rightarrow> string \<Rightarrow> property" where
  "getProperty reg k =
     (case map_of reg k of
        Some d \<Rightarrow> OwnDevice d
      | None \<Rightarrow> (case map_of objectPrototype k of Some n \<Rightarrow> Inherited n | None \<Rightarrow> Undefined))"

definition updateDevice ::
  "string \<Rightarrow> (device \<Rightarrow> device) \<Rightarrow> (string \<times> device) list \<Rightarrow> (string \<times> device) list" where
  "updateDevice k f reg = map (\<lambda>(k', d). if k' = k then (k', f d) else (k', d)) reg"

definition fetch :: "request \<Rightarrow> state \<Rightarrow> state" where
  "fetch req s = s\<lparr>requests := requests s @ [req]\<rparr>"

subsection \<open>Logging\<close>

definition addLog :: "string \<Rightarrow> string \<Rightarrow> state \<Rightarrow> state" where
  "addLog msg ty s =
     (let logs1 = \<lparr>message = msg, log_type = ty\<rparr> # logs s
      in s\<lparr>logs := (if length logs1 > logMaxEntries CONFIG
                     then take (logMaxEntries CONFIG) logs1 else logs1)\<rparr>)"

definition showNotification :: "string \<Rightarrow> string \<Rightarrow> state \<Rightarrow> state" where
  "showNotification msg ty s = addLog msg ty s"

definition clearLogs :: "state \<Rightarrow> state" where
  "clearLogs s = addLog ''Logs cleared by user'' ''info'' (s\<lparr>logs := []\<rparr>)"

subsection \<open>The initial state\<close>

definition initialDeviceData :: "(string \<times> device) list" where
  "initialDeviceData =
    [(''keylogger'',
        \<lparr>dev_id = ''device1'', name = ''Keylogger'', status = ''offline'',
         endpoint = ''/keylogger'', dev_type = ''keylogger'', instances = [], lastSeen = None,
         capabilities = [''start_logging'', ''stop_logging'', ''download_logs'', ''clear_buffer'']\<rparr>),
     (''keystroke_injector'',
        \<lparr>dev_id = ''device2'', name = ''Keystroke Injector'', status = ''offline'',
         endpoint = ''/keystroke-injector'', dev_type = ''keystroke_injector'', instances = [],
         lastSeen = None,
         capabilities = [''inject_payload'', ''load_script'', ''stop_injection'', ''list_payloads'']\<rparr>),
     (''ethernet_tap'',
        \<lparr>dev_id = ''device3'', name = ''Ethernet Tap'', status = ''offline'',
         endpoint = ''/ethernet-tap'', dev_type = ''ethernet_tap'', instances = [], lastSeen = None,
         capabilities = [''start_capture'', ''stop_capture'', ''download_pcap'', ''monitor_mode'']\<rparr>),
     (''evil_twin'',
        \<lparr>dev_id = ''device4'', name = ''Evil Twin AP'', status = ''offline'',
         endpoint = ''/evil-twin'', dev_type = ''evil_twin'', instances = [], lastSeen = None,
         capabilities = [''start_ap'', ''stop_ap'', ''view_clients'', ''deauth_clients'',
           ''clone_network'']\<rparr>)]"

definition initialState :: state where
  "initialState = \<lparr>masterStatus = ''disconnected'', deviceData = initialDeviceData, logs = [],
     requests = [], elements = {''device1'', ''device2'', ''device3'', ''device4''},
     loading = {}, timers = []\<rparr>"

subsection \<open>checkMasterConnection\<close>

definition healthRequest :: request where
  "healthRequest = \<lparr>req_method = ''GET'',
     req_url = masterDeviceUrl CONFIG @ ''/api/health'', req_body = NoBody\<rparr>"

definition connectionFailed :: "string \<Rightarrow> state \<Rightarrow> bool \<times> state" where
  "connectionFailed msg s =
     (False, addLog (''Master device connection failed: '' @ msg) ''error''
               (s\<lparr>masterStatus := ''disconnected''\<rparr>))"

definition checkMasterConnection :: "unit fetched \<Rightarrow> state \<Rightarrow> bool \<times> state" where
  "checkMasterConnection f s =
     (let s1 = fetch healthRequest s
      in case f of
           Rejected msg \<Rightarrow> connectionFailed msg s1
         | Resolved r \<Rightarrow>
             if ok r then
               (case json_body r of
                  Unparsable msg \<Rightarrow> connectionFailed msg s1
                | Parsed data \<Rightarrow>
                    (True, addLog ''Master device connection established'' ''success''
                             (s1\<lparr>masterStatus := ''connected''\<rparr>)))
             else connectionFailed
                    (''HTTP '' @ string_of_nat (http_status r) @ '': '' @ statusText r) s1)"

subsection \<open>getAllDevicesStatus\<close>

definition statusRequest :: "device \<Rightarrow> request" where
  "statusRequest d = \<lparr>req_method = ''POST'',
     req_url = masterDeviceUrl CONFIG @ endpoint d @ ''/status'',
     req_body = StatusBody (dev_id d)\<rparr>"

text \<open>The result object of a fetch that failed: status offline, with the reason.\<close>

definition offlineResult :: "string \<Rightarrow> string \<Rightarrow> statusResult" where
  "offlineResult k msg =
     \<lparr>deviceType = k,
      res_status = JsonObj \<lparr>resp_status = Some ''offline'', resp_error = Some msg,
        last_seen = None, resp_instances = None, device_info = None\<rparr>,
      success = False\<rparr>"

text \<open>The callback of \<open>Object.entries(deviceData).map\<close>, after its fetch was issued:
  the inner \<open>try\<close> turns every failure into a result.\<close>

definition statusPromise :: "statusData fetched \<Rightarrow> string \<Rightarrow> statusResult" where
  "statusPromise f k =
     (case f of
        Rejected msg \<Rightarrow> offlineResult k msg
      | Resolved r \<Rightarrow>
          if ok r then
            (case json_body r of
               Unparsable msg \<Rightarrow> offlineResult k msg
             | Parsed data \<Rightarrow> \<lparr>deviceType = k, res_status = data, success = True\<rparr>)
          else offlineResult k (statusText r))"

text \<open>The three assignments to \<open>status\<close>, \<open>lastSeen\<close> and \<open>instances\<close>.\<close>

definition mergeStatus :: "statusData \<Rightarrow> device \<Rightarrow> device" where
  "mergeStatus st d =
     d\<lparr>status := orElse (resp_status st) ''offline'',
       lastSeen := (if truthy (last_seen st) then last_seen st else lastSeen d),
       instances := (case resp_instances st of None \<Rightarrow> [] | Some l \<Rightarrow> l)\<rparr>"

text \<open>\<open>Object.assign(device, device_info)\<close>: every property that the source object
  carries overwrites the property of that name.\<close>

definition assignDeviceInfo :: "deviceInfo \<Rightarrow> device \<Rightarrow> device" where
  "assignDeviceInfo di d =
     d\<lparr>dev_id := (case di_id di of None \<Rightarrow> dev_id d | Some v \<Rightarrow> v),
       name := (case di_name di of None \<Rightarrow> name d | Some v \<Rightarrow> v),
       status := (case di_status di of None \<Rightarrow> status d | Some v \<Rightarrow> v),
       endpoint := (case di_endpoint di of None \<Rightarrow> endpoint d | Some v \<Rightarrow> v),
       dev_type := (case di_type di of None \<Rightarrow> dev_type d | Some v \<Rightarrow> v),
       instances := (case di_instances di of None \<Rightarrow> instances d | Some v \<Rightarrow> v),
       lastSeen := (case di_lastSeen di of None \<Rightarrow> lastSeen d | Some v \<Rightarrow> v),
       capabilities := (case di_capabilities di of None \<Rightarrow> capabilities d | Some v \<Rightarrow> v)\<rparr>"

text \<open>The callback of \<open>results.forEach\<close>. Reading \<open>status.status\<close> of a
  \<open>null\<close> body throws before anything is assigned.\<close>

definition updateFromResult :: "statusResult \<Rightarrow> state \<Rightarrow> exn + state" where
  "updateFromResult r s =
     (case map_of (deviceData s) (deviceType r) of
        None \<Rightarrow> Inr s
      | Some d \<Rightarrow>
          (case res_status r of
             JsonNull \<Rightarrow> Inl (nullTypeError ''null'' ''status'')
           | JsonObj st \<Rightarrow>
               (let oldStatus = status d;
                    d1 = mergeStatus st d;
                    s1 = s\<lparr>deviceData := updateDevice (deviceType r) (mergeStatus st) (deviceData s)\<rparr>;
                    s2 = (if oldStatus \<noteq> status d1
                          then addLog (name d1 @ '': Status changed from '' @ oldStatus @ '' to ''
                                         @ status d1)
                                 (if status d1 = ''online'' then ''success'' else ''warning'') s1
                          else s1)
                in Inr (case device_info st of
                          None \<Rightarrow> s2
                        | Some di \<Rightarrow>
                            s2\<lparr>deviceData :=
                                 updateDevice (deviceType r) (assignDeviceInfo di) (deviceData s2)\<rparr>))))"

text \<open>\<open>forEach\<close>: an exception in a callback ends the loop; what was assigned before
  stays assigned.\<close>

fun forEachResult :: "statusResult list \<Rightarrow> state \<Rightarrow> exn option \<times> state" where
  "forEachResult [] s = (None, s)"
| "forEachResult (r # rs) s =
     (case updateFromResult r s of
        Inl e \<Rightarrow> (Some e, s)
      | Inr s' \<Rightarrow> forEachResult rs s')"

text \<open>The map over \<open>Object.entries(deviceData)\<close>: every callback issues its fetch
  when it is called, in the order of the entries; \<open>Promise.all\<close> then collects one
  result for each entry, \<open>net k\<close> being what the fetch for the entry of key \<open>k\<close>
  gives back.\<close>

definition fetchAll :: "(string \<times> device) list \<Rightarrow> state \<Rightarrow> state" where
  "fetchAll entries s = fold (\<lambda>(k, d). fetch (statusRequest d)) entries s"

definition statusPromises ::
  "(string \<Rightarrow> statusData fetched) \<Rightarrow> (string \<times> device) list \<Rightarrow> statusResult list" where
  "statusPromises net entries = map (\<lambda>(k, d). statusPromise (net k) k) entries"

definition getAllDevicesStatus :: "(string \<Rightarrow> statusData fetched) \<Rightarrow> state \<Rightarrow> bool \<times> state" where
  "getAllDevicesStatus net s =
     (if masterStatus s \<noteq> ''connected'' then (False, s)
      else
        (let entries = deviceData s;
             s1 = fetchAll entries s;
             results = statusPromises net entries
         in case forEachResult results s1 of
              (Some e, s2) \<Rightarrow> (False, addLog ''Failed to update device status'' ''error'' s2)
            | (None, s2) \<Rightarrow> (True, s2)))"

subsection \<open>refreshSingleDevice\<close>

text \<open>The function returns \<open>true\<close>, \<open>false\<close> or, for a response that is not ok,
  nothing (\<open>None\<close>).\<close>

definition refreshSingleDevice :: "string \<Rightarrow> statusData fetched \<Rightarrow> state \<Rightarrow> bool option \<times> state" where
  "refreshSingleDevice k f s =
     (case map_of (deviceData s) k of
        None \<Rightarrow> (Some False, s)
      | Some d \<Rightarrow>
          (let s1 = fetch (statusRequest d) s
           in case f of
                Rejected msg \<Rightarrow> (Some False, s1)
              | Resolved r \<Rightarrow>
                  if ok r then
                    (case json_body r of
                       Unparsable msg \<Rightarrow> (Some False, s1)
                     | Parsed JsonNull \<Rightarrow> (Some False, s1)
                     | Parsed (JsonObj data) \<Rightarrow>
                         (let oldStatus = status d;
                              d1 = mergeStatus data d;
                              s2 = s1\<lparr>deviceData := updateDevice k (mergeStatus data) (deviceData s1)\<rparr>;
                              s3 = (if oldStatus \<noteq> status d1
                                    then addLog (name d1 @ '': Status updated to '' @ status d1)
                                           (if status d1 = ''online'' then ''success'' else ''warning'') s2
                                    else s2)
                          in (Some True, s3)))
                  else (None, s1)))"

subsection \<open>sendDeviceCommand\<close>

definition commandRequest :: "device \<Rightarrow> string \<Rightarrow> (string \<times> string) list \<Rightarrow> request" where
  "commandRequest d command parameters = \<lparr>req_method = ''POST'',
     req_url = masterDeviceUrl CONFIG @ endpoint d @ ''/command'',
     req_body = CommandBody command parameters (Some (dev_id d))\<rparr>"

text \<open>The request for an inherited member: its \<open>endpoint\<close> and \<open>id\<close> are
  \<open>undefined\<close>.\<close>

definition inheritedCommandRequest :: "string \<Rightarrow> (string \<times> string) list \<Rightarrow> request" where
  "inheritedCommandRequest command parameters = \<lparr>req_method = ''POST'',
     req_url = masterDeviceUrl CONFIG @ printed None @ ''/command'',
     req_body = CommandBody command parameters None\<rparr>"

text \<open>Reading \<open>device.name\<close> in a template literal: nothing when \<open>device\<close>
  is \<open>undefined\<close> (the read throws), else the name as it is printed.\<close>

definition nameRead :: "property \<Rightarrow> string option" where
  "nameRead p =
     (case p of
        Undefined \<Rightarrow> None
      | OwnDevice d \<Rightarrow> Some (name d)
      | Inherited n \<Rightarrow> Some (printed n))"

definition handleCommandResponse ::
  "string \<Rightarrow> string \<Rightarrow> commandData json \<Rightarrow> state \<Rightarrow> (exn + unit) \<times> state" where
  "handleCommandResponse k command result s =
     (let device = nameRead (getProperty (deviceData s) k)
      in if command = ''download_logs'' \<or> command = ''download_pcap'' then
           (case result of
              JsonNull \<Rightarrow> (Inl (nullTypeError ''null'' ''download_url''), s)
            | JsonObj r \<Rightarrow>
                if truthy (download_url r) then
                  (case device of
                     None \<Rightarrow> (Inl (nullTypeError ''undefined'' ''name''), s)
                   | Some nm \<Rightarrow> (Inr (), addLog (nm @ '': Download started'') ''success'' s))
                else (Inr (), s))
         else if command = ''view_clients'' then
           (case result of
              JsonNull \<Rightarrow> (Inl (nullTypeError ''null'' ''clients''), s)
            | JsonObj r \<Rightarrow>
                (case clients r of
                   None \<Rightarrow> (Inr (), s)
                 | Some cs \<Rightarrow>
                     (case device of
                        None \<Rightarrow> (Inl (nullTypeError ''undefined'' ''name''), s)
                      | Some nm \<Rightarrow>
                          (Inr (), addLog (nm @ '': '' @ string_of_nat (length cs)
                                             @ '' clients connected'') ''info'' s))))
         else if command = ''list_payloads'' then
           (case result of
              JsonNull \<Rightarrow> (Inl (nullTypeError ''null'' ''payloads''), s)
            | JsonObj r \<Rightarrow>
                (case payloads r of
                   None \<Rightarrow> (Inr (), s)
                 | Some ps \<Rightarrow>
                     (case device of
                        None \<Rightarrow> (Inl (nullTypeError ''undefined'' ''name''), s)
                      | Some nm \<Rightarrow>
                          (Inr (), addLog (nm @ '': '' @ string_of_nat (length ps)
                                             @ '' payloads available'') ''info'' s))))
         else (Inr (), s))"

text \<open>The \<open>try\<close> block, given what it reads of \<open>device\<close>: the name as the
  template literals print it, the id that \<open>getElementById\<close> receives, and the request.
  An exception leaves the block with the state as it is at the throw. \<open>timerError\<close> is
  what the \<open>setTimeout\<close> that schedules the refresh throws, if it throws; the timer
  of a notification is taken to be set without an exception.\<close>

definition tryCommandWith ::
  "string \<Rightarrow> string \<Rightarrow> string \<Rightarrow> request \<Rightarrow> string \<Rightarrow> commandData fetched \<Rightarrow>
     string option \<Rightarrow> state \<Rightarrow> (exn + commandData json) \<times> state" where
  "tryCommandWith k nm elem req command f timerError s =
     (let s1 = addLog (''Sending '' @ command @ '' command to '' @ nm) ''info'' s;
          s2 = (if elem \<in> elements s1 then s1\<lparr>loading := insert elem (loading s1)\<rparr> else s1);
          s3 = fetch req s2
      in case f of
           Rejected msg \<Rightarrow> (Inl (Error msg), s3)
         | Resolved r \<Rightarrow>
             (case json_body r of
                Unparsable msg \<Rightarrow> (Inl (Error msg), s3)
              | Parsed result \<Rightarrow>
                  if ok r then
                    (let s4 = showNotification (command @ '' sent to '' @ nm) ''success''
                                (addLog (nm @ '': '' @ command @ '' executed successfully'')
                                   ''success'' s3)
                     in case handleCommandResponse k command result s4 of
                          (Inl e, s5) \<Rightarrow> (Inl e, s5)
                        | (Inr u, s5) \<Rightarrow>
                            (case timerError of
                               Some msg \<Rightarrow> (Inl (Error msg), s5)
                             | None \<Rightarrow> (Inr result, s5\<lparr>timers := timers s5 @ [k]\<rparr>)))
                  else
                    (case result of
                       JsonNull \<Rightarrow> (Inl (nullTypeError ''null'' ''error''), s3)
                     | JsonObj d \<Rightarrow>
                         (Inl (Error (orElse (cmd_error d)
                                        (''Command failed: '' @ statusText r))), s3))))"

text \<open>The \<open>catch\<close> block and the \<open>finally\<close> block, given the same.\<close>

fun catchWith :: "string \<Rightarrow> string \<Rightarrow> exn \<Rightarrow> state \<Rightarrow> cmdReturn \<times> state" where
  "catchWith nm command (Error msg) s =
     (ReturnFalse,
      showNotification (''Command failed: '' @ msg) ''error''
        (addLog (nm @ '': '' @ command @ '' failed - '' @ msg) ''error'' s))"

definition removeLoadingFrom :: "string \<Rightarrow> state \<Rightarrow> state" where
  "removeLoadingFrom elem s =
     (if elem \<in> elements s then s\<lparr>loading := loading s - {elem}\<rparr> else s)"

text \<open>The three blocks for a device of the registry.\<close>

definition tryCommand ::
  "string \<Rightarrow> device \<Rightarrow> string \<Rightarrow> (string \<times> string) list \<Rightarrow> commandData fetched \<Rightarrow>
     string option \<Rightarrow> state \<Rightarrow> (exn + commandData json) \<times> state" where
  "tryCommand k device command parameters f timerError s =
     tryCommandWith k (name device) (dev_id device) (commandRequest device command parameters)
       command f timerError s"

definition catchCommand :: "device \<Rightarrow> string \<Rightarrow> exn \<Rightarrow> state \<Rightarrow> cmdReturn \<times> state" where
  "catchCommand device command e s = catchWith (name device) command e s"

definition removeLoading :: "device \<Rightarrow> state \<Rightarrow> state" where
  "removeLoading device s = removeLoadingFrom (dev_id device) s"

text \<open>An inherited member passes the guard \<open>!device\<close>, since it is an object; its
  \<open>status\<close> is \<open>undefined\<close>, which is not \<open>online\<close>.\<close>

definition sendDeviceCommand ::
  "string \<Rightarrow> string \<Rightarrow> (string \<times> string) list \<Rightarrow> commandData fetched \<Rightarrow> string option \<Rightarrow>
     state \<Rightarrow> cmdReturn \<times> state" where
  "sendDeviceCommand k command parameters f timerError s =
     (if masterStatus s \<noteq> ''connected'' then
        (ReturnFalse,
         showNotification ''Master device not connected'' ''error''
           (addLog ''Cannot send command: Master device not connected'' ''error'' s))
      else
        (case getProperty (deviceData s) k of
           Undefined \<Rightarrow> (ReturnFalse, addLog (''Unknown device type: '' @ k) ''error'' s)
         | OwnDevice device \<Rightarrow>
             if status device \<noteq> ''online'' \<and> command \<notin> set [''refresh'', ''reconnect''] then
               (ReturnFalse,
                showNotification (name device @ '' is offline'') ''warning''
                  (addLog (''Cannot send '' @ command @ '' to '' @ name device
                             @ '': Device is offline'') ''warning'' s))
             else
               (let (ret, s') =
                      (case tryCommand k device command parameters f timerError s of
                         (Inl e, s1) \<Rightarrow> catchCommand device command e s1
                       | (Inr result, s1) \<Rightarrow> (ReturnResult result, s1))
                in (ret, removeLoading device s'))
         | Inherited n \<Rightarrow>
             if command \<notin> set [''refresh'', ''reconnect''] then
               (ReturnFalse,
                showNotification (printed n @ '' is offline'') ''warning''
                  (addLog (''Cannot send '' @ command @ '' to '' @ printed n
                             @ '': Device is offline'') ''warning'' s))
             else
               (let (ret, s') =
                      (case tryCommandWith k (printed n) (printed None)
                              (inheritedCommandRequest command parameters) command f timerError s of
                         (Inl e, s1) \<Rightarrow> catchWith (printed n) command e s1
                       | (Inr result, s1) \<Rightarrow> (ReturnResult result, s1))
                in (ret, removeLoadingFrom (printed None) s'))))"

definition controlInstance ::
  "string \<Rightarrow> string \<Rightarrow> string \<Rightarrow> commandData fetched \<Rightarrow> string option \<Rightarrow> state \<Rightarrow> state" where
  "controlInstance k instanceId action f timerError s =
     snd (sendDeviceCommand k ''control_instance''
            [(''instanceId'', instanceId), (''action'', action)] f timerError s)"

subsection \<open>Sequences of operations and concrete inputs used in the statements\<close>

text \<open>A sequence of \<open>addLog\<close> calls, given by their arguments, and the entry that one
  call builds.\<close>

definition addLogs :: "(string \<times> string) list \<Rightarrow> state \<Rightarrow> state" where
  "addLogs es s = fold (\<lambda>(m, t). addLog m t) es s"

definition entryOf :: "string \<times> string \<Rightarrow> logEntry" where
  "entryOf e = \<lparr>message = fst e, log_type = snd e\<rparr>"

text \<open>A health response with status 200, and the state after the first probe received it.\<close>

definition healthy :: "unit fetched" where
  "healthy = Resolved \<lparr>http_status = 200, statusText = ''OK'', json_body = Parsed (JsonObj ())\<rparr>"

definition connectedState :: state where
  "connectedState = snd (checkMasterConnection healthy initialState)"

subsection \<open>Notions used in the statements about the status sync\<close>

text \<open>What the callback of \<open>forEach\<close> leaves of a device record: the three
  assignments, then \<open>Object.assign\<close> when the response carries \<open>device_info\<close>.\<close>

definition syncDevice :: "statusData \<Rightarrow> device \<Rightarrow> device" where
  "syncDevice st d =
     (case device_info st of
        None \<Rightarrow> mergeStatus st d
      | Some di \<Rightarrow> assignDeviceInfo di (mergeStatus st d))"

text \<open>The record stored under a key of the registry.\<close>

definition deviceAt :: "state \<Rightarrow> string \<Rightarrow> device" where
  "deviceAt s k = the (map_of (deviceData s) k)"

text \<open>The log after a sequence of entries was recorded, oldest first, each by one
  \<open>addLog\<close>.\<close>

definition logAll :: "logEntry list \<Rightarrow> logEntry list \<Rightarrow> logEntry list" where
  "logAll es l = fold (\<lambda>e l. take (logMaxEntries CONFIG) (e # l)) es l"

text \<open>The entry, if any, that \<open>getAllDevicesStatus\<close> and \<open>refreshSingleDevice\<close>
  record for a device whose record was \<open>d\<close> before and is \<open>d'\<close> after: none when the
  status is the same.\<close>

definition transitionEntry :: "device \<Rightarrow> device \<Rightarrow> logEntry list" where
  "transitionEntry d d' =
     (if status d \<noteq> status d'
      then [\<lparr>message = name d @ '': Status changed from '' @ status d @ '' to '' @ status d',
             log_type = (if status d' = ''online'' then ''success'' else ''warning'')\<rparr>]
      else [])"

definition refreshEntry :: "device \<Rightarrow> device \<Rightarrow> logEntry list" where
  "refreshEntry d d' =
     (if status d \<noteq> status d'
      then [\<lparr>message = name d @ '': Status updated to '' @ status d',
             log_type = (if status d' = ''online'' then ''success'' else ''warning'')\<rparr>]
      else [])"

text \<open>The results that \<open>forEach\<close> applies: those before the first \<open>null\<close>
  body.\<close>

definition processed :: "statusResult list \<Rightarrow> statusResult list" where
  "processed rs = takeWhile (\<lambda>r. res_status r \<noteq> JsonNull) rs"

text \<open>The three kinds of outcome of a status fetch: a 2xx response whose body is a JSON
  object, a 2xx response whose body is \<open>null\<close>, and a failure with its reason (the
  promise rejects, the status is not 2xx, or the body cannot be parsed).\<close>

definition fetchedObject :: "'a fetched \<Rightarrow> 'a option" where
  "fetchedObject f =
     (case f of
        Rejected msg \<Rightarrow> None
      | Resolved r \<Rightarrow>
          if ok r then (case json_body r of Parsed (JsonObj x) \<Rightarrow> Some x | _ \<Rightarrow> None) else None)"

definition nullBody :: "'a fetched \<Rightarrow> bool" where
  "nullBody f =
     (case f of Rejected msg \<Rightarrow> False | Resolved r \<Rightarrow> ok r \<and> json_body r = Parsed JsonNull)"

definition fetchFailure :: "'a fetched \<Rightarrow> string option" where
  "fetchFailure f =
     (case f of
        Rejected msg \<Rightarrow> Some msg
      | Resolved r \<Rightarrow>
          if ok r then (case json_body r of Unparsable msg \<Rightarrow> Some msg | Parsed x \<Rightarrow> None)
          else Some (statusText r))"

text \<open>A response whose \<open>device_info\<close>, if any, carries no \<open>status\<close>, no
  \<open>instances\<close>, no \<open>lastSeen\<close>.\<close>

definition keepsStatus :: "statusData \<Rightarrow> bool" where
  "keepsStatus st = (case device_info st of None \<Rightarrow> True | Some di \<Rightarrow> di_status di = None)"

definition keepsInstances :: "statusData \<Rightarrow> bool" where
  "keepsInstances st = (case device_info st of None \<Rightarrow> True | Some di \<Rightarrow> di_instances di = None)"

definition keepsLastSeen :: "statusData \<Rightarrow> bool" where
  "keepsLastSeen st = (case device_info st of None \<Rightarrow> True | Some di \<Rightarrow> di_lastSeen di = None)"

subsection \<open>Concrete responses and states\<close>



definition okResponse :: "statusData json \<Rightarrow> statusData fetched" where
  "okResponse b = Resolved \<lparr>http_status = 200, statusText = ''OK'', json_body = Parsed b\<rparr>"

definition instance1 :: instanceRecord where
  "instance1 = \<lparr>inst_id = ''i1'', inst_name = None, inst_status = ''running'', details = None\<rparr>"

definition instance2 :: instanceRecord where
  "instance2 = \<lparr>inst_id = ''i2'', inst_name = Some ''capture'', inst_status = ''stopped'',
     details = None\<rparr>"

definition onlineData :: statusData where
  "onlineData = \<lparr>resp_status = Some ''online'', resp_error = None,
     last_seen = Some ''2024-05-01T10:00:00Z'', resp_instances = Some [instance1],
     device_info = None\<rparr>"

definition replacedData :: statusData where
  "replacedData = \<lparr>resp_status = Some ''online'', resp_error = None, last_seen = None,
     resp_instances = Some [instance2], device_info = None\<rparr>"

definition noInfo :: deviceInfo where
  "noInfo = \<lparr>di_id = None, di_name = None, di_status = None, di_endpoint = None, di_type = None,
     di_instances = None, di_lastSeen = None, di_capabilities = None\<rparr>"

definition keyloggerOnline :: "string \<Rightarrow> statusData fetched" where
  "keyloggerOnline k =
     (if k = ''keylogger'' then okResponse (JsonObj onlineData) else Rejected ''unreachable'')"

definition allOnline :: "string \<Rightarrow> statusData fetched" where
  "allOnline k = okResponse (JsonObj onlineData)"

definition allReplaced :: "string \<Rightarrow> statusData fetched" where
  "allReplaced k = okResponse (JsonObj replacedData)"

definition allUnreachable :: "string \<Rightarrow> statusData fetched" where
  "allUnreachable k = Rejected ''unreachable''"

definition allTimedOut :: "string \<Rightarrow> statusData fetched" where
  "allTimedOut k = Rejected ''timeout''"

definition nullThenUnreachable :: "string \<Rightarrow> statusData fetched" where
  "nullThenUnreachable k =
     (if k = ''keylogger'' then okResponse JsonNull else Rejected ''unreachable'')"

definition nullThenOnline :: "string \<Rightarrow> statusData fetched" where
  "nullThenOnline k =
     (if k = ''keylogger'' then okResponse JsonNull else okResponse (JsonObj onlineData))"

definition infoStatus :: "string \<Rightarrow> statusData fetched" where
  "infoStatus k = okResponse (JsonObj \<lparr>resp_status = Some ''offline'', resp_error = None,
     last_seen = None, resp_instances = None,
     device_info = Some (noInfo\<lparr>di_status := Some ''online''\<rparr>)\<rparr>)"

definition infoInstances :: "string \<Rightarrow> statusData fetched" where
  "infoInstances k = okResponse (JsonObj \<lparr>resp_status = Some ''online'', resp_error = None,
     last_seen = None, resp_instances = Some [instance2],
     device_info = Some (noInfo\<lparr>di_instances := Some [instance1]\<rparr>)\<rparr>)"

definition infoLastSeen :: "string \<Rightarrow> statusData fetched" where
  "infoLastSeen k = okResponse (JsonObj \<lparr>resp_status = Some ''online'', resp_error = None,
     last_seen = None, resp_instances = None,
     device_info = Some (noInfo\<lparr>di_lastSeen := Some (Some ''2024-05-02T08:00:00Z'')\<rparr>)\<rparr>)"

definition onlineState :: state where
  "onlineState = snd (getAllDevicesStatus allOnline connectedState)"

section \<open>Properties\<close>

subsection \<open>Basic facts\<close>

lemma cap_100: "logMaxEntries CONFIG = 100"
  by (simp add: CONFIG_def)

lemma logs_addLog:
  "logs (addLog m t s) = take (logMaxEntries CONFIG) (\<lparr>message = m, log_type = t\<rparr> # logs s)"
  by (simp add: addLog_def Let_def)

lemma addLog_frame [simp]:
  "masterStatus (addLog m t s) = masterStatus s"
  "deviceData (addLog m t s) = deviceData s"
  "requests (addLog m t s) = requests s"
  "elements (addLog m t s) = elements s"
  "loading (addLog m t s) = loading s"
  "timers (addLog m t s) = timers s"
  by (simp_all add: addLog_def Let_def)

lemma fetch_frame [simp]:
  "masterStatus (fetch r s) = masterStatus s"
  "deviceData (fetch r s) = deviceData s"
  "logs (fetch r s) = logs s"
  "requests (fetch r s) = requests s @ [r]"
  "elements (fetch r s) = elements s"
  "loading (fetch r s) = loading s"
  "timers (fetch r s) = timers s"
  by (simp_all add: fetch_def)

lemma take_cons_take: "take n (x # take n xs) = take n (x # xs)"
  by (cases n) simp_all

lemma logs_addLogs:
  "logs (addLogs es s) = (if es = [] then logs s else take (logMaxEntries CONFIG) (rev (map entryOf es) @ logs s))"
proof (induction es arbitrary: s)
  case Nil
  show ?case by (simp add: addLogs_def)
next
  case (Cons e es)
  obtain m t where e: "e = (m, t)" by (cases e)
  have step: "addLogs (e # es) s = addLogs es (addLog m t s)"
    by (simp add: addLogs_def e)
  show ?case
  proof (cases "es = []")
    case True
    then show ?thesis by (simp add: step addLogs_def logs_addLog entryOf_def e)
  next
    case False
    have "logs (addLogs es (addLog m t s)) =
        take (logMaxEntries CONFIG) (rev (map entryOf es) @ logs (addLog m t s))"
      using Cons.IH [of "addLog m t s"] False by simp
    also have "\<dots> = take (logMaxEntries CONFIG) (rev (map entryOf es) @ entryOf e # logs s)"
      by (simp add: logs_addLog entryOf_def e take_cons_take min_def)
    finally show ?thesis by (simp add: step)
  qed
qed

lemma connectedState_simps:
  "masterStatus connectedState = ''connected''"
  "deviceData connectedState = initialDeviceData"
  "logs connectedState = [\<lparr>message = ''Master device connection established'', log_type = ''success''\<rparr>]"
  "requests connectedState = [healthRequest]"
  "elements connectedState = {''device1'', ''device2'', ''device3'', ''device4''}"
  "loading connectedState = {}"
  by (simp_all add: connectedState_def checkMasterConnection_def healthy_def ok_def Let_def
      initialState_def logs_addLog cap_100)

lemma handleCommandResponse_frame:
  "elements (snd (handleCommandResponse k c r s)) = elements s"
  "loading (snd (handleCommandResponse k c r s)) = loading s"
  by (simp_all add: handleCommandResponse_def Let_def split: json.splits option.splits)

lemma handleCommandResponse_frameD:
  "handleCommandResponse k c r s = (h, s') \<Longrightarrow> elements s' = elements s \<and> loading s' = loading s"
  using handleCommandResponse_frame [of k c r s] by simp

lemma tryCommandWith_frame:
  "elements (snd (tryCommandWith k nm elem req c f te s)) = elements s
   \<and> loading (snd (tryCommandWith k nm elem req c f te s)) =
       (if elem \<in> elements s then insert elem (loading s) else loading s)"
proof (cases f)
  case (Rejected msg)
  then show ?thesis by (simp add: tryCommandWith_def Let_def)
next
  case (Resolved r)
  show ?thesis
  proof (cases "json_body r")
    case (Unparsable msg)
    with Resolved show ?thesis by (simp add: tryCommandWith_def Let_def)
  next
    case (Parsed result)
    show ?thesis
    proof (cases "ok r")
      case False
      with Resolved Parsed show ?thesis
        by (simp add: tryCommandWith_def Let_def split: json.splits)
    next
      case True
      with Resolved Parsed show ?thesis
        by (auto simp: tryCommandWith_def Let_def showNotification_def
            split: prod.splits sum.splits option.splits
            dest!: handleCommandResponse_frameD)
    qed
  qed
qed

lemma tryCommand_frame:
  "elements (snd (tryCommand k d c p f te s)) = elements s
   \<and> loading (snd (tryCommand k d c p f te s)) =
       (if dev_id d \<in> elements s then insert (dev_id d) (loading s) else loading s)"
  unfolding tryCommand_def by (rule tryCommandWith_frame)

lemma catchCommand_frame:
  "elements (snd (catchCommand d c e s)) = elements s"
  "loading (snd (catchCommand d c e s)) = loading s"
  by (cases e; simp add: catchCommand_def showNotification_def)+

lemma getProperty_own: "map_of reg k = Some d \<Longrightarrow> getProperty reg k = OwnDevice d"
  by (simp add: getProperty_def)

subsection \<open>The activity log\<close>

text \<open>
  C8. After every sequence of \<open>addLog\<close> calls the log holds at most
  \<open>CONFIG.logMaxEntries\<close> entries, newest first: the log is the reversed sequence of the
  recorded entries in front of the earlier log, cut to the capacity, so the entry recorded last
  is first and the oldest entries are the ones dropped.
\<close>

theorem addLog_bounded_newest_first:
  "logs (addLogs (e # es) s) =
     take (logMaxEntries CONFIG) (rev (map entryOf (e # es)) @ logs s)
   \<and> length (logs (addLogs (e # es) s)) \<le> logMaxEntries CONFIG
   \<and> hd (logs (addLogs (e # es) s)) = entryOf (last (e # es))
   \<and> (length (logs s) \<le> logMaxEntries CONFIG \<longrightarrow>
        length (logs (addLogs es s)) \<le> logMaxEntries CONFIG)"
proof -
  have eq: "logs (addLogs (e # es) s) =
      take (logMaxEntries CONFIG) (rev (map entryOf (e # es)) @ logs s)"
    using logs_addLogs [of "e # es" s] by simp
  have len: "length (logs (addLogs (e # es) s)) \<le> logMaxEntries CONFIG"
    by (simp only: eq length_take min.cobounded2)
  have "hd (logs (addLogs (e # es) s)) = hd (rev (map entryOf (e # es)) @ logs s)"
    by (simp only: eq cap_100) (simp only: hd_take zero_less_numeral)
  also have "\<dots> = hd (rev (map entryOf (e # es)))"
    by (rule hd_append2) simp
  also have "\<dots> = entryOf (last (e # es))"
    by (simp only: hd_rev last_map [OF list.distinct(2)])
  finally have hd: "hd (logs (addLogs (e # es) s)) = entryOf (last (e # es))" .
  have inv: "length (logs s) \<le> logMaxEntries CONFIG \<longrightarrow>
        length (logs (addLogs es s)) \<le> logMaxEntries CONFIG"
  proof (cases "es = []")
    case True
    then show ?thesis by (simp add: addLogs_def)
  next
    case False
    then have "logs (addLogs es s) = take (logMaxEntries CONFIG) (rev (map entryOf es) @ logs s)"
      by (simp add: logs_addLogs)
    then show ?thesis by (simp only: length_take min.cobounded2 simp_thms)
  qed
  from eq len hd inv show ?thesis by blast
qed

theorem addLog_bounded_newest_first_witness:
  "length (logs initialState) \<le> logMaxEntries CONFIG
   \<and> logs (addLogs [(''first'', ''info''), (''second'', ''error'')] initialState) =
       [\<lparr>message = ''second'', log_type = ''error''\<rparr>, \<lparr>message = ''first'', log_type = ''info''\<rparr>]
   \<and> length (logs (addLogs [(''second'', ''error'')] initialState)) \<le> logMaxEntries CONFIG"
proof -
  have h: "length (logs initialState) \<le> logMaxEntries CONFIG"
    by (simp add: initialState_def)
  show ?thesis
    using h addLog_bounded_newest_first [of "(''first'', ''info'')" "[(''second'', ''error'')]"
        initialState]
    by (simp add: initialState_def entryOf_def cap_100)
qed

subsection \<open>The connectivity probe\<close>

text \<open>
  C1 (as amended). Every call of \<open>checkMasterConnection\<close> records exactly one entry in
  the activity log, whatever the connection state was before: a success entry when the probe
  succeeds and an error entry when it fails. The probe that observes a transition therefore
  records it once, and a probe whose outcome equals the previous state records an entry as
  well.
\<close>

theorem checkMasterConnection_logs_every_probe:
  "\<exists>msg. snd (checkMasterConnection f s) =
     addLog msg (if fst (checkMasterConnection f s) then ''success'' else ''error'')
       ((fetch healthRequest s)\<lparr>masterStatus :=
           (if fst (checkMasterConnection f s) then ''connected'' else ''disconnected'')\<rparr>)"
  by (auto simp: checkMasterConnection_def connectionFailed_def Let_def
      split: fetched.splits parsed.splits)

text \<open>
  The claim as it was stated fails: in the connected state a second successful probe leaves
  the state connected and still adds an entry.
\<close>

theorem checkMasterConnection_repeat_counterexample:
  "masterStatus connectedState = ''connected''
   \<and> masterStatus (snd (checkMasterConnection healthy connectedState)) = ''connected''
   \<and> logs connectedState =
        [\<lparr>message = ''Master device connection established'', log_type = ''success''\<rparr>]
   \<and> logs (snd (checkMasterConnection healthy connectedState)) =
        [\<lparr>message = ''Master device connection established'', log_type = ''success''\<rparr>,
         \<lparr>message = ''Master device connection established'', log_type = ''success''\<rparr>]"
  by (simp add: connectedState_simps checkMasterConnection_def healthy_def ok_def Let_def
      logs_addLog cap_100)

subsection \<open>The guards of sendDeviceCommand\<close>

text \<open>
  C5. Whenever \<open>masterStatus\<close> is not connected, \<open>sendDeviceCommand\<close> issues no
  request, records the failure in the log (the entry of \<open>addLog\<close> and the one of the
  notification, both of type error), returns \<open>false\<close> and leaves the registry as it was.
\<close>

theorem sendDeviceCommand_not_connected:
  assumes "masterStatus s \<noteq> ''connected''"
  shows "sendDeviceCommand k command parameters f timerError s =
           (ReturnFalse,
            addLog ''Master device not connected'' ''error''
              (addLog ''Cannot send command: Master device not connected'' ''error'' s))
         \<and> requests (snd (sendDeviceCommand k command parameters f timerError s)) = requests s
         \<and> deviceData (snd (sendDeviceCommand k command parameters f timerError s)) = deviceData s"
  using assms by (simp add: sendDeviceCommand_def showNotification_def)

theorem sendDeviceCommand_not_connected_witness:
  "masterStatus initialState \<noteq> ''connected''
   \<and> fst (sendDeviceCommand ''keylogger'' ''start_logging'' [] (Rejected ''unreachable'') None
            initialState) = ReturnFalse
   \<and> requests (snd (sendDeviceCommand ''keylogger'' ''start_logging'' [] (Rejected ''unreachable'')
            None initialState)) = []
   \<and> deviceData (snd (sendDeviceCommand ''keylogger'' ''start_logging'' [] (Rejected ''unreachable'')
            None initialState)) = initialDeviceData"
proof -
  have h: "masterStatus initialState \<noteq> ''connected''"
    by (simp add: initialState_def)
  show ?thesis
    using h sendDeviceCommand_not_connected [OF h, of "''keylogger''" "''start_logging''" "[]"
        "Rejected ''unreachable''" None]
    by (simp add: initialState_def)
qed

text \<open>
  What the guard \<open>!device\<close> refuses: while connected, for a device type that is neither
  a key of the registry nor a member of \<open>Object.prototype\<close>, \<open>sendDeviceCommand\<close>
  issues no request, records the error entry \<open>Unknown device type\<close>, returns
  \<open>false\<close> and changes nothing else.
\<close>

lemma sendDeviceCommand_undefined_property:
  assumes "masterStatus s = ''connected''" and "map_of (deviceData s) k = None"
    and "map_of objectPrototype k = None"
  shows "sendDeviceCommand k command parameters f timerError s =
           (ReturnFalse, addLog (''Unknown device type: '' @ k) ''error'' s)
         \<and> requests (snd (sendDeviceCommand k command parameters f timerError s)) = requests s
         \<and> deviceData (snd (sendDeviceCommand k command parameters f timerError s)) = deviceData s"
  using assms by (simp add: sendDeviceCommand_def getProperty_def)


text \<open>
  C6 (as amended). While connected, for every known device whose status is not online and
  every command other than \<open>refresh\<close> and \<open>reconnect\<close>, \<open>sendDeviceCommand\<close>
  issues no request, records warning entries and returns \<open>false\<close>.
\<close>

theorem sendDeviceCommand_device_offline:
  assumes "masterStatus s = ''connected''" and "map_of (deviceData s) k = Some d"
    and "status d \<noteq> ''online''" and "command \<noteq> ''refresh''" and "command \<noteq> ''reconnect''"
  shows "sendDeviceCommand k command parameters f timerError s =
           (ReturnFalse,
            addLog (name d @ '' is offline'') ''warning''
              (addLog (''Cannot send '' @ command @ '' to '' @ name d @ '': Device is offline'')
                 ''warning'' s))
         \<and> requests (snd (sendDeviceCommand k command parameters f timerError s)) = requests s
         \<and> deviceData (snd (sendDeviceCommand k command parameters f timerError s)) = deviceData s"
  using assms by (simp add: sendDeviceCommand_def showNotification_def getProperty_own)

theorem sendDeviceCommand_device_offline_witness:
  "masterStatus connectedState = ''connected''
   \<and> map_option status (map_of (deviceData connectedState) ''keylogger'') = Some ''offline''
   \<and> fst (sendDeviceCommand ''keylogger'' ''start_logging'' [] (Rejected ''unreachable'') None
        connectedState) = ReturnFalse
   \<and> map log_type (logs (snd (sendDeviceCommand ''keylogger'' ''start_logging'' []
        (Rejected ''unreachable'') None connectedState))) = [''warning'', ''warning'', ''success'']
   \<and> requests (snd (sendDeviceCommand ''keylogger'' ''start_logging'' [] (Rejected ''unreachable'')
        None connectedState)) = [healthRequest]"
proof -
  have h1: "masterStatus connectedState = ''connected''"
    by (simp add: connectedState_simps)
  have h2: "map_of (deviceData connectedState) ''keylogger'' = Some (snd (hd initialDeviceData))"
    by (simp add: connectedState_simps initialDeviceData_def)
  have h3: "status (snd (hd initialDeviceData)) \<noteq> ''online''"
    by (simp add: initialDeviceData_def)
  have h4: "''start_logging'' \<noteq> ''refresh''" and h5: "''start_logging'' \<noteq> ''reconnect''"
    by simp_all
  show ?thesis
    using h1 h2 sendDeviceCommand_device_offline [OF h1 h2 h3 h4 h5, of "[]"
        "Rejected ''unreachable''" None]
    by (simp add: connectedState_simps logs_addLog cap_100 initialDeviceData_def)
qed

text \<open>
  The claim as it was stated, without the condition on the connection, fails: in the initial
  state the master is disconnected and the keylogger offline, and the command is refused with
  entries of type error, none of type warning.
\<close>

theorem sendDeviceCommand_device_offline_counterexample:
  "map_option status (map_of (deviceData initialState) ''keylogger'') = Some ''offline''
   \<and> ''start_logging'' \<notin> set [''refresh'', ''reconnect'']
   \<and> map log_type (logs (snd (sendDeviceCommand ''keylogger'' ''start_logging'' []
        (Rejected ''unreachable'') None initialState))) = [''error'', ''error'']"
  by (simp add: initialState_def initialDeviceData_def sendDeviceCommand_def showNotification_def
      logs_addLog cap_100)

subsection \<open>The loading marker\<close>

text \<open>
  C7. When \<open>sendDeviceCommand\<close> passes its guards and the page of the device exists, the
  \<open>try\<close> block sets the class \<open>loading\<close> on it, and whatever happens next (the fetch
  rejects, the body cannot be parsed, the response is not ok, the response handler throws, or
  \<open>setTimeout\<close> throws) the class is removed when the call completes.
\<close>

theorem sendDeviceCommand_clears_loading:
  assumes "masterStatus s = ''connected''" and "map_of (deviceData s) k = Some d"
    and "status d = ''online'' \<or> command = ''refresh'' \<or> command = ''reconnect''"
    and "dev_id d \<in> elements s"
  shows "dev_id d \<in> loading (snd (tryCommand k d command parameters f timerError s))
         \<and> dev_id d \<notin> loading (snd (sendDeviceCommand k command parameters f timerError s))"
proof -
  let ?t = "tryCommand k d command parameters f timerError s"
  have set: "dev_id d \<in> loading (snd ?t)" and el: "elements (snd ?t) = elements s"
    using tryCommand_frame [of k d command parameters f timerError s] assms(4) by simp_all
  obtain o1 s1 where t: "?t = (o1, s1)" by (cases ?t)
  define r where "r = (case o1 of Inl e \<Rightarrow> catchCommand d command e s1
                        | Inr result \<Rightarrow> (ReturnResult result, s1))"
  have el': "elements (snd r) = elements s"
    using el t by (cases o1) (simp_all add: r_def catchCommand_frame)
  have "sendDeviceCommand k command parameters f timerError s = (fst r, removeLoading d (snd r))"
    using assms(1-3) t
    by (auto simp: sendDeviceCommand_def getProperty_own r_def split: prod.splits sum.splits)
  then show ?thesis using set el' assms(4) by (simp add: removeLoading_def removeLoadingFrom_def)
qed

theorem sendDeviceCommand_clears_loading_witness:
  "masterStatus connectedState = ''connected''
   \<and> dev_id (snd (hd initialDeviceData)) = ''device1''
   \<and> ''device1'' \<in> elements connectedState
   \<and> ''device1'' \<in> loading (snd (tryCommand ''keylogger'' (snd (hd initialDeviceData))
        ''refresh'' [] (Rejected ''unreachable'') None connectedState))
   \<and> ''device1'' \<notin> loading (snd (sendDeviceCommand ''keylogger'' ''refresh'' []
        (Rejected ''unreachable'') None connectedState))"
proof -
  have h1: "masterStatus connectedState = ''connected''"
    by (simp add: connectedState_simps)
  have h2: "map_of (deviceData connectedState) ''keylogger'' = Some (snd (hd initialDeviceData))"
    by (simp add: connectedState_simps initialDeviceData_def)
  have h3: "status (snd (hd initialDeviceData)) = ''online'' \<or> ''refresh'' = ''refresh''
      \<or> ''refresh'' = ''reconnect''"
    by simp
  have id: "dev_id (snd (hd initialDeviceData)) = ''device1''"
    by (simp add: initialDeviceData_def)
  have h4: "dev_id (snd (hd initialDeviceData)) \<in> elements connectedState"
    by (simp add: id connectedState_simps)
  show ?thesis
    using h1 id sendDeviceCommand_clears_loading [OF h1 h2 h3 h4, of "[]"
        "Rejected ''unreachable''" None]
    by (simp add: connectedState_simps)
qed

subsection \<open>Facts about the status sync\<close>

lemma map_of_updateDevice:
  "map_of (updateDevice k f reg) k' =
     (if k' = k then map_option f (map_of reg k) else map_of reg k')"
  by (induction reg) (auto simp: updateDevice_def)

lemma keys_updateDevice [simp]: "map fst (updateDevice k f reg) = map fst reg"
  by (induction reg) (auto simp: updateDevice_def)

lemma updateDevice_twice:
  "updateDevice k g (updateDevice k f reg) = updateDevice k (\<lambda>d. g (f d)) reg"
  by (induction reg) (auto simp: updateDevice_def)

lemma addLog_eq:
  "addLog m t s = s\<lparr>logs := logAll [\<lparr>message = m, log_type = t\<rparr>] (logs s)\<rparr>"
  by (simp add: addLog_def Let_def logAll_def)

lemma logAll_append: "logAll (xs @ ys) l = logAll ys (logAll xs l)"
  by (simp add: logAll_def)

lemma logAll_Nil [simp]: "logAll [] l = l"
  by (simp add: logAll_def)

lemma transitionEntry_same [simp]: "transitionEntry d d = []"
  by (simp add: transitionEntry_def)

lemma transitionEntry_sync:
  "keepsStatus st \<Longrightarrow>
     transitionEntry d (syncDevice st d) = transitionEntry d (mergeStatus st d)"
  by (simp add: transitionEntry_def keepsStatus_def syncDevice_def assignDeviceInfo_def
      split: option.splits)

lemma syncDevice_None: "device_info st = None \<Longrightarrow> syncDevice st = mergeStatus st"
  by (simp add: fun_eq_iff syncDevice_def)

lemma syncDevice_Some:
  "device_info st = Some di \<Longrightarrow> syncDevice st = (\<lambda>d. assignDeviceInfo di (mergeStatus st d))"
  by (simp add: fun_eq_iff syncDevice_def)

lemma status_mergeStatus [simp]: "status (mergeStatus st d) = orElse (resp_status st) ''offline''"
  and name_mergeStatus [simp]: "name (mergeStatus st d) = name d"
  by (simp_all add: mergeStatus_def)

lemma updateFromResult_obj:
  assumes "map_of (deviceData s) (deviceType r) = Some d" and "res_status r = JsonObj st"
  shows "updateFromResult r s =
     Inr (s\<lparr>deviceData := updateDevice (deviceType r) (syncDevice st) (deviceData s),
            logs := logAll (transitionEntry d (mergeStatus st d)) (logs s)\<rparr>)"
proof (cases "device_info st")
  case None
  with assms show ?thesis
    by (simp add: updateFromResult_def Let_def addLog_eq syncDevice_None transitionEntry_def)
next
  case (Some di)
  with assms show ?thesis
    by (simp add: updateFromResult_def Let_def addLog_eq syncDevice_Some transitionEntry_def
        updateDevice_twice)
qed

lemma updateFromResult_null:
  assumes "map_of (deviceData s) (deviceType r) = Some d" and "res_status r = JsonNull"
  shows "updateFromResult r s = Inl (nullTypeError ''null'' ''status'')"
  using assms by (simp add: updateFromResult_def)

lemma updateFromResult_frame:
  assumes "updateFromResult r s = Inr s'"
  shows "map fst (deviceData s') = map fst (deviceData s)"
    and "k \<noteq> deviceType r \<Longrightarrow> map_of (deviceData s') k = map_of (deviceData s) k"
    and "masterStatus s' = masterStatus s" and "requests s' = requests s"
proof -
  have "map fst (deviceData s') = map fst (deviceData s)
      \<and> (k \<noteq> deviceType r \<longrightarrow> map_of (deviceData s') k = map_of (deviceData s) k)
      \<and> masterStatus s' = masterStatus s \<and> requests s' = requests s"
  proof (cases "map_of (deviceData s) (deviceType r)")
    case None
    with assms show ?thesis by (simp add: updateFromResult_def)
  next
    case (Some d)
    show ?thesis
    proof (cases "res_status r")
      case JsonNull
      with Some assms show ?thesis by (simp add: updateFromResult_null)
    next
      case (JsonObj st)
      with Some assms show ?thesis
        by (auto simp: updateFromResult_obj map_of_updateDevice)
    qed
  qed
  then show "map fst (deviceData s') = map fst (deviceData s)"
    and "k \<noteq> deviceType r \<Longrightarrow> map_of (deviceData s') k = map_of (deviceData s) k"
    and "masterStatus s' = masterStatus s" and "requests s' = requests s"
    by simp_all
qed

lemma forEachResult_frame:
  "map fst (deviceData (snd (forEachResult rs s))) = map fst (deviceData s)
   \<and> masterStatus (snd (forEachResult rs s)) = masterStatus s
   \<and> requests (snd (forEachResult rs s)) = requests s"
proof (induction rs arbitrary: s)
  case Nil
  show ?case by simp
next
  case (Cons r rs)
  show ?case
  proof (cases "updateFromResult r s")
    case (Inl e)
    then show ?thesis by simp
  next
    case (Inr s1)
    then show ?thesis
      using Cons.IH [of s1] updateFromResult_frame(1,3,4) [OF Inr] by simp
  qed
qed

lemma forEachResult_other:
  "k \<notin> deviceType ` set rs \<Longrightarrow>
     map_of (deviceData (snd (forEachResult rs s))) k = map_of (deviceData s) k"
proof (induction rs arbitrary: s)
  case Nil
  show ?case by simp
next
  case (Cons r rs)
  show ?case
  proof (cases "updateFromResult r s")
    case (Inl e)
    then show ?thesis by simp
  next
    case (Inr s1)
    then show ?thesis
      using Cons.IH [of s1] Cons.prems updateFromResult_frame(2) [OF Inr, of k] by simp
  qed
qed

lemma map_of_key: "k \<in> fst ` set reg \<Longrightarrow> \<exists>d. map_of reg k = Some d"
  by (metis domD dom_map_of_conv_image_fst)

lemma find_processed_None:
  assumes "k \<notin> deviceType ` set rs"
  shows "find (\<lambda>r. deviceType r = k) (processed rs) = None"
proof -
  have "x \<in> set rs" if "x \<in> set (processed rs)" for x
    using that unfolding processed_def by (rule set_takeWhileD [THEN conjunct1])
  then show ?thesis using assms by (auto simp: find_None_iff)
qed

lemma forEachResult_device:
  assumes "distinct (map deviceType rs)"
    and "\<forall>r\<in>set rs. deviceType r \<in> fst ` set (deviceData s)"
    and "map_of (deviceData s) k = Some d"
  shows "map_of (deviceData (snd (forEachResult rs s))) k =
     Some (case find (\<lambda>r. deviceType r = k) (processed rs) of
             None \<Rightarrow> d
           | Some r \<Rightarrow> (case res_status r of JsonNull \<Rightarrow> d | JsonObj st \<Rightarrow> syncDevice st d))"
  using assms
proof (induction rs arbitrary: s d)
  case Nil
  then show ?case by (simp add: processed_def)
next
  case (Cons r rs)
  obtain dr where dr: "map_of (deviceData s) (deviceType r) = Some dr"
    using Cons.prems(2) map_of_key by fastforce
  show ?case
  proof (cases "res_status r")
    case JsonNull
    then show ?thesis
      using dr Cons.prems(3) by (simp add: updateFromResult_null processed_def)
  next
    case (JsonObj st)
    define s1 where "s1 = s\<lparr>deviceData := updateDevice (deviceType r) (syncDevice st) (deviceData s),
            logs := logAll (transitionEntry dr (mergeStatus st dr)) (logs s)\<rparr>"
    have step: "updateFromResult r s = Inr s1"
      using dr JsonObj by (simp add: updateFromResult_obj s1_def)
    have keys: "\<forall>r'\<in>set rs. deviceType r' \<in> fst ` set (deviceData s1)"
    proof -
      have "fst ` set (deviceData s1) = fst ` set (deviceData s)"
        using updateFromResult_frame(1) [OF step] by (metis list.set_map)
      then show ?thesis using Cons.prems(2) by simp
    qed
    have dist: "distinct (map deviceType rs)" and notin: "deviceType r \<notin> deviceType ` set rs"
      using Cons.prems(1) by simp_all
    show ?thesis
    proof (cases "deviceType r = k")
      case True
      have d1: "map_of (deviceData s1) k = Some (syncDevice st d)"
        using True dr Cons.prems(3) by (simp add: s1_def map_of_updateDevice)
      have "find (\<lambda>r'. deviceType r' = k) (processed rs) = None"
        using notin True by (simp add: find_processed_None)
      then show ?thesis
        using Cons.IH [OF dist keys d1] step True JsonObj by (simp add: processed_def)
    next
      case False
      have d1: "map_of (deviceData s1) k = Some d"
        using False Cons.prems(3) by (simp add: s1_def map_of_updateDevice)
      show ?thesis
        using Cons.IH [OF dist keys d1] step False JsonObj by (simp add: processed_def)
    qed
  qed
qed

lemma forEachResult_fst:
  assumes "\<forall>r\<in>set rs. deviceType r \<in> fst ` set (deviceData s)"
  shows "fst (forEachResult rs s) =
     (if \<forall>r\<in>set rs. res_status r \<noteq> JsonNull then None else Some (nullTypeError ''null'' ''status''))"
  using assms
proof (induction rs arbitrary: s)
  case Nil
  show ?case by simp
next
  case (Cons r rs)
  obtain dr where dr: "map_of (deviceData s) (deviceType r) = Some dr"
    using Cons.prems map_of_key by fastforce
  show ?case
  proof (cases "res_status r")
    case JsonNull
    then show ?thesis using dr by (simp add: updateFromResult_null)
  next
    case (JsonObj st)
    define s1 where "s1 = s\<lparr>deviceData := updateDevice (deviceType r) (syncDevice st) (deviceData s),
            logs := logAll (transitionEntry dr (mergeStatus st dr)) (logs s)\<rparr>"
    have step: "updateFromResult r s = Inr s1"
      using dr JsonObj by (simp add: updateFromResult_obj s1_def)
    have keys: "\<forall>r'\<in>set rs. deviceType r' \<in> fst ` set (deviceData s1)"
    proof -
      have "fst ` set (deviceData s1) = fst ` set (deviceData s)"
        using updateFromResult_frame(1) [OF step] by (metis list.set_map)
      then show ?thesis using Cons.prems by simp
    qed
    show ?thesis using Cons.IH [OF keys] step JsonObj by simp
  qed
qed

lemma concat_map_Nil [simp]: "concat (map (\<lambda>x. []) xs) = []"
  by (induction xs) simp_all

lemma forEachResult_logs:
  assumes "distinct (map deviceType rs)"
    and "\<forall>r\<in>set rs. deviceType r \<in> fst ` set (deviceData s)"
    and "\<forall>r\<in>set rs. \<forall>st. res_status r = JsonObj st \<longrightarrow> keepsStatus st"
  shows "logs (snd (forEachResult rs s)) =
     logAll (concat (map (\<lambda>r. transitionEntry (deviceAt s (deviceType r))
                               (deviceAt (snd (forEachResult rs s)) (deviceType r))) rs))
       (logs s)"
  using assms
proof (induction rs arbitrary: s)
  case Nil
  show ?case by simp
next
  case (Cons r rs)
  obtain dr where dr: "map_of (deviceData s) (deviceType r) = Some dr"
    using Cons.prems(2) map_of_key by fastforce
  show ?case
  proof (cases "res_status r")
    case JsonNull
    then show ?thesis using dr by (simp add: updateFromResult_null)
  next
    case (JsonObj st)
    define s1 where "s1 = s\<lparr>deviceData := updateDevice (deviceType r) (syncDevice st) (deviceData s),
            logs := logAll (transitionEntry dr (mergeStatus st dr)) (logs s)\<rparr>"
    define s' where "s' = snd (forEachResult rs s1)"
    have step: "updateFromResult r s = Inr s1"
      using dr JsonObj by (simp add: updateFromResult_obj s1_def)
    have all: "snd (forEachResult (r # rs) s) = s'"
      using step by (simp add: s'_def)
    have keys: "\<forall>r'\<in>set rs. deviceType r' \<in> fst ` set (deviceData s1)"
    proof -
      have "fst ` set (deviceData s1) = fst ` set (deviceData s)"
        using updateFromResult_frame(1) [OF step] by (metis list.set_map)
      then show ?thesis using Cons.prems(2) by simp
    qed
    have dist: "distinct (map deviceType rs)" and notin: "deviceType r \<notin> deviceType ` set rs"
      using Cons.prems(1) by simp_all
    have keeps: "keepsStatus st" using Cons.prems(3) JsonObj by simp
    have IH: "logs s' =
        logAll (concat (map (\<lambda>r'. transitionEntry (deviceAt s1 (deviceType r'))
                               (deviceAt s' (deviceType r'))) rs)) (logs s1)"
      unfolding s'_def using Cons.IH [OF dist keys] Cons.prems(3) by simp
    have rest: "map (\<lambda>r'. transitionEntry (deviceAt s1 (deviceType r')) (deviceAt s' (deviceType r'))) rs
        = map (\<lambda>r'. transitionEntry (deviceAt s (deviceType r')) (deviceAt s' (deviceType r'))) rs"
    proof (rule map_cong [OF refl])
      fix r' assume "r' \<in> set rs"
      then have "deviceType r' \<noteq> deviceType r" using notin by (metis imageI)
      then have "deviceAt s1 (deviceType r') = deviceAt s (deviceType r')"
        by (simp add: deviceAt_def s1_def map_of_updateDevice)
      then show "transitionEntry (deviceAt s1 (deviceType r')) (deviceAt s' (deviceType r'))
          = transitionEntry (deviceAt s (deviceType r')) (deviceAt s' (deviceType r'))"
        by simp
    qed
    have "map_of (deviceData s') (deviceType r) = map_of (deviceData s1) (deviceType r)"
      unfolding s'_def using notin by (rule forEachResult_other)
    then have own: "deviceAt s' (deviceType r) = syncDevice st dr"
      using dr by (simp add: deviceAt_def s1_def map_of_updateDevice)
    have first: "logs s1 = logAll (transitionEntry (deviceAt s (deviceType r))
        (deviceAt s' (deviceType r))) (logs s)"
    proof -
      have "deviceAt s (deviceType r) = dr" using dr by (simp add: deviceAt_def)
      then show ?thesis using keeps by (simp add: own s1_def transitionEntry_sync)
    qed
    show ?thesis
      unfolding all by (simp add: IH rest first logAll_append)
  qed
qed

lemma fetchAll_frame [simp]:
  "deviceData (fetchAll es s) = deviceData s"
  "logs (fetchAll es s) = logs s"
  "masterStatus (fetchAll es s) = masterStatus s"
  by (induction es arbitrary: s; simp add: fetchAll_def split_def)+

lemma deviceType_statusPromise [simp]: "deviceType (statusPromise f k) = k"
  by (simp add: statusPromise_def offlineResult_def split: fetched.splits parsed.splits)

lemma types_statusPromises [simp]: "map deviceType (statusPromises net reg) = map fst reg"
  by (simp add: statusPromises_def split_def)

lemma getAll_unfold:
  assumes "masterStatus s = ''connected''"
  shows "getAllDevicesStatus net s =
    (if fst (forEachResult (statusPromises net (deviceData s)) (fetchAll (deviceData s) s)) = None
     then (True, snd (forEachResult (statusPromises net (deviceData s)) (fetchAll (deviceData s) s)))
     else (False, addLog ''Failed to update device status'' ''error''
             (snd (forEachResult (statusPromises net (deviceData s)) (fetchAll (deviceData s) s)))))"
  using assms
  by (cases "forEachResult (statusPromises net (deviceData s)) (fetchAll (deviceData s) s)")
     (auto simp: getAllDevicesStatus_def Let_def split: option.splits)

lemma getAll_deviceData:
  assumes "masterStatus s = ''connected''"
  shows "deviceData (snd (getAllDevicesStatus net s)) =
    deviceData (snd (forEachResult (statusPromises net (deviceData s)) (fetchAll (deviceData s) s)))"
  by (simp add: getAll_unfold [OF assms])

lemma getAll_logs:
  assumes "masterStatus s = ''connected''"
  shows "logs (snd (getAllDevicesStatus net s)) =
    logAll (if fst (getAllDevicesStatus net s) then []
            else [\<lparr>message = ''Failed to update device status'', log_type = ''error''\<rparr>])
      (logs (snd (forEachResult (statusPromises net (deviceData s)) (fetchAll (deviceData s) s))))"
  by (simp add: getAll_unfold [OF assms] addLog_eq)

lemma statusPromises_keys:
  "\<forall>r\<in>set (statusPromises net reg). deviceType r \<in> fst ` set reg"
  by (force simp: statusPromises_def)

lemma getAll_device:
  assumes conn: "masterStatus s = ''connected''" and dist: "distinct (map fst (deviceData s))"
    and d: "map_of (deviceData s) k = Some d"
  shows "map_of (deviceData (snd (getAllDevicesStatus net s))) k =
     Some (case find (\<lambda>r. deviceType r = k) (processed (statusPromises net (deviceData s))) of
             None \<Rightarrow> d
           | Some r \<Rightarrow> (case res_status r of JsonNull \<Rightarrow> d | JsonObj st \<Rightarrow> syncDevice st d))"
proof -
  let ?s1 = "fetchAll (deviceData s) s"
  have 1: "distinct (map deviceType (statusPromises net (deviceData s)))"
    using dist by simp
  have 2: "\<forall>r\<in>set (statusPromises net (deviceData s)). deviceType r \<in> fst ` set (deviceData ?s1)"
    using statusPromises_keys by simp
  have 3: "map_of (deviceData ?s1) k = Some d" using d by simp
  show ?thesis
    unfolding getAll_deviceData [OF conn] by (rule forEachResult_device [OF 1 2 3])
qed

lemma find_statusPromises:
  "find (\<lambda>r. deviceType r = k) (processed (statusPromises net reg)) = Some r \<Longrightarrow>
     r = statusPromise (net k) k"
proof -
  assume a: "find (\<lambda>r. deviceType r = k) (processed (statusPromises net reg)) = Some r"
  then have "r \<in> set (processed (statusPromises net reg))" and k: "deviceType r = k"
    by (auto simp: find_Some_iff)
  then have "r \<in> set (statusPromises net reg)"
    unfolding processed_def by (auto dest: set_takeWhileD)
  then obtain k' where "r = statusPromise (net k') k'"
    by (auto simp: statusPromises_def)
  with k show ?thesis by simp
qed

lemma getAll_device_cases:
  assumes dist: "distinct (map fst (deviceData s))" and d: "map_of (deviceData s) k = Some d"
  shows "map_of (deviceData (snd (getAllDevicesStatus net s))) k = Some d
     \<or> (\<exists>st. res_status (statusPromise (net k) k) = JsonObj st
           \<and> map_of (deviceData (snd (getAllDevicesStatus net s))) k = Some (syncDevice st d))"
proof (cases "masterStatus s = ''connected''")
  case False
  then show ?thesis using d by (simp add: getAllDevicesStatus_def)
next
  case True
  show ?thesis
  proof (cases "find (\<lambda>r. deviceType r = k) (processed (statusPromises net (deviceData s)))")
    case None
    then show ?thesis using getAll_device [OF True dist d, of net] by simp
  next
    case (Some r)
    then have r: "r = statusPromise (net k) k" by (rule find_statusPromises)
    show ?thesis
      using getAll_device [OF True dist d, of net] Some r
      by (cases "res_status (statusPromise (net k) k)") simp_all
  qed
qed

lemma fetched_cases [case_names Rejected NotOk Unparsable Null Object]:
  obtains (Rejected) msg where "f = Rejected msg"
  | (NotOk) r where "f = Resolved r" and "\<not> ok r"
  | (Unparsable) r msg where "f = Resolved r" and "ok r" and "json_body r = Unparsable msg"
  | (Null) r where "f = Resolved r" and "ok r" and "json_body r = Parsed JsonNull"
  | (Object) r x where "f = Resolved r" and "ok r" and "json_body r = Parsed (JsonObj x)"
proof (cases f)
  case (Rejected msg)
  then show ?thesis using that(1) by blast
next
  case (Resolved r)
  show ?thesis
  proof (cases "ok r")
    case False
    then show ?thesis using Resolved that(2) by blast
  next
    case True
    show ?thesis
    proof (cases "json_body r")
      case (Unparsable msg)
      then show ?thesis using Resolved True that(3) by blast
    next
      case (Parsed j)
      then show ?thesis using Resolved True that(4,5) by (cases j) blast+
    qed
  qed
qed

lemma statusPromise_failure:
  "fetchFailure f = Some m \<Longrightarrow> statusPromise f k = offlineResult k m"
  by (cases f rule: fetched_cases) (simp_all add: fetchFailure_def statusPromise_def)

lemma statusPromise_object:
  "fetchedObject f = Some st \<Longrightarrow>
     statusPromise f k = \<lparr>deviceType = k, res_status = JsonObj st, success = True\<rparr>"
  by (cases f rule: fetched_cases) (simp_all add: fetchedObject_def statusPromise_def)

lemma statusPromise_null:
  "res_status (statusPromise f k) = JsonNull \<longleftrightarrow> nullBody f"
  by (cases f rule: fetched_cases) (simp_all add: nullBody_def statusPromise_def offlineResult_def)

lemma statusPromise_JsonObj:
  "res_status (statusPromise f k) = JsonObj st \<Longrightarrow>
     fetchedObject f = Some st
     \<or> (\<exists>m. st = \<lparr>resp_status = Some ''offline'', resp_error = Some m, last_seen = None,
                   resp_instances = None, device_info = None\<rparr>)"
  by (cases f rule: fetched_cases)
     (auto simp: fetchedObject_def statusPromise_def offlineResult_def)

lemma refresh_unknown:
  "map_of (deviceData s) k = None \<Longrightarrow> refreshSingleDevice k f s = (Some False, s)"
  by (simp add: refreshSingleDevice_def)

lemma refresh_object:
  assumes "map_of (deviceData s) k = Some d" and "fetchedObject f = Some st"
  shows "refreshSingleDevice k f s =
     (Some True, (fetch (statusRequest d) s)
        \<lparr>deviceData := updateDevice k (mergeStatus st) (deviceData s),
         logs := logAll (refreshEntry d (mergeStatus st d)) (logs s)\<rparr>)"
  using assms
  by (cases f rule: fetched_cases)
     (simp_all add: refreshSingleDevice_def fetchedObject_def Let_def addLog_eq refreshEntry_def)

lemma refresh_other:
  assumes "map_of (deviceData s) k = Some d" and "fetchedObject f = None"
  shows "snd (refreshSingleDevice k f s) = fetch (statusRequest d) s"
  using assms
  by (cases f rule: fetched_cases)
     (simp_all add: refreshSingleDevice_def fetchedObject_def Let_def)

lemma refreshEntry_same [simp]: "refreshEntry d d = []"
  by (simp add: refreshEntry_def)

lemma refresh_device:
  assumes "map_of (deviceData s) k = Some d"
  shows "deviceAt (snd (refreshSingleDevice k f s)) k =
     (case fetchedObject f of None \<Rightarrow> d | Some st \<Rightarrow> mergeStatus st d)"
proof (cases "fetchedObject f")
  case None
  then show ?thesis using assms by (simp add: refresh_other deviceAt_def)
next
  case (Some st)
  then show ?thesis using assms by (simp add: refresh_object deviceAt_def map_of_updateDevice)
qed

lemma refresh_logs:
  "logs (snd (refreshSingleDevice k f s)) =
     logAll (case map_of (deviceData s) k of
               None \<Rightarrow> []
             | Some d \<Rightarrow> refreshEntry d (deviceAt (snd (refreshSingleDevice k f s)) k))
       (logs s)"
proof (cases "map_of (deviceData s) k")
  case None
  then show ?thesis by (simp add: refresh_unknown)
next
  case (Some d)
  show ?thesis
  proof (cases "fetchedObject f")
    case None
    then show ?thesis using Some by (simp add: refresh_device) (simp add: refresh_other)
  next
    case (Some st)
    then show ?thesis using \<open>map_of (deviceData s) k = Some d\<close>
      by (simp add: refresh_device) (simp add: refresh_object)
  qed
qed

lemma map_statusPromises:
  "map (\<lambda>r. h (deviceType r)) (statusPromises net reg) = map (\<lambda>(k, d). h k) reg"
  by (simp add: statusPromises_def split_def)

lemma keeps_results:
  assumes "\<forall>k\<in>fst ` set reg. \<forall>st. fetchedObject (net k) = Some st \<longrightarrow> keepsStatus st"
  shows "\<forall>r\<in>set (statusPromises net reg). \<forall>st. res_status r = JsonObj st \<longrightarrow> keepsStatus st"
proof (intro ballI allI impI)
  fix r st assume "r \<in> set (statusPromises net reg)" and obj: "res_status r = JsonObj st"
  then obtain k where k: "k \<in> fst ` set reg" and r: "r = statusPromise (net k) k"
    by (force simp: statusPromises_def)
  from statusPromise_JsonObj [OF obj [unfolded r]] show "keepsStatus st"
  proof
    assume "fetchedObject (net k) = Some st"
    then show ?thesis using assms k by blast
  next
    assume "\<exists>m. st = \<lparr>resp_status = Some ''offline'', resp_error = Some m, last_seen = None,
                   resp_instances = None, device_info = None\<rparr>"
    then show ?thesis by (auto simp: keepsStatus_def)
  qed
qed

lemma find_processed_hit:
  assumes "\<forall>r'\<in>set pre. res_status r' \<noteq> JsonNull \<and> deviceType r' \<noteq> deviceType r"
    and "res_status r \<noteq> JsonNull"
  shows "find (\<lambda>x. deviceType x = deviceType r) (processed (pre @ r # post)) = Some r"
  using assms by (induction pre) (simp_all add: processed_def)

lemma getAll_device_processed:
  assumes conn: "masterStatus s = ''connected''" and dist: "distinct (map fst (deviceData s))"
    and split: "deviceData s = pre @ (k, d) # post"
    and pre: "\<forall>k'\<in>fst ` set pre. \<not> nullBody (net k')"
    and obj: "res_status (statusPromise (net k) k) = JsonObj st"
  shows "map_of (deviceData (snd (getAllDevicesStatus net s))) k = Some (syncDevice st d)"
proof -
  have "(k, d) \<in> set (deviceData s)"
    by (simp add: split)
  then have d: "map_of (deviceData s) k = Some d"
    using dist by simp
  have notin: "k \<notin> fst ` set pre"
    using dist by (simp add: split)
  have rs: "statusPromises net (deviceData s) =
      statusPromises net pre @ statusPromise (net k) k # statusPromises net post"
    by (simp add: split statusPromises_def)
  have "\<forall>r'\<in>set (statusPromises net pre).
      res_status r' \<noteq> JsonNull \<and> deviceType r' \<noteq> deviceType (statusPromise (net k) k)"
  proof
    fix r' assume "r' \<in> set (statusPromises net pre)"
    then obtain k' where k': "k' \<in> fst ` set pre" and r': "r' = statusPromise (net k') k'"
      by (force simp: statusPromises_def)
    then show "res_status r' \<noteq> JsonNull \<and> deviceType r' \<noteq> deviceType (statusPromise (net k) k)"
      using pre notin by (auto simp: statusPromise_null)
  qed
  then have "find (\<lambda>x. deviceType x = deviceType (statusPromise (net k) k))
      (processed (statusPromises net (deviceData s))) = Some (statusPromise (net k) k)"
    unfolding rs using obj by (intro find_processed_hit) simp_all
  then show ?thesis
    using getAll_device [OF conn dist d, of net] obj by simp
qed

lemma instances_syncDevice:
  "keepsInstances st \<Longrightarrow>
     instances (syncDevice st d) = (case resp_instances st of None \<Rightarrow> [] | Some l \<Rightarrow> l)"
  by (simp add: keepsInstances_def syncDevice_def assignDeviceInfo_def mergeStatus_def
      split: option.splits)

lemma lastSeen_syncDevice:
  "\<not> truthy (last_seen st) \<Longrightarrow> keepsLastSeen st \<Longrightarrow> lastSeen (syncDevice st d) = lastSeen d"
  by (simp add: keepsLastSeen_def syncDevice_def assignDeviceInfo_def mergeStatus_def
      split: option.splits)

lemma find_processed_agree:
  assumes agree: "\<forall>k. k \<noteq> X \<longrightarrow> net' k = net k"
    and nn: "\<not> nullBody (net X)" and nn': "\<not> nullBody (net' X)" and Y: "Y \<noteq> X"
  shows "find (\<lambda>r. deviceType r = Y) (processed (statusPromises net' reg)) =
         find (\<lambda>r. deviceType r = Y) (processed (statusPromises net reg))"
proof (induction reg)
  case Nil
  show ?case by (simp add: statusPromises_def)
next
  case (Cons e reg)
  obtain k d where e: "e = (k, d)" by (cases e)
  have IH: "find (\<lambda>r. deviceType r = Y) (takeWhile (\<lambda>r. res_status r \<noteq> JsonNull)
        (statusPromises net' reg)) =
      find (\<lambda>r. deviceType r = Y) (takeWhile (\<lambda>r. res_status r \<noteq> JsonNull)
        (statusPromises net reg))"
    using Cons.IH by (simp add: processed_def)
  have unfold: "statusPromises n (e # reg) = statusPromise (n k) k # statusPromises n reg" for n
    by (simp add: statusPromises_def e)
  show ?case
  proof (cases "k = X")
    case True
    then show ?thesis
      using nn nn' Y IH by (simp add: processed_def unfold statusPromise_null)
  next
    case False
    then have "net' k = net k" using agree by simp
    then show ?thesis
      using IH by (simp add: processed_def unfold)
  qed
qed

lemma getAll_keys:
  "map fst (deviceData (snd (getAllDevicesStatus net s))) = map fst (deviceData s)"
proof (cases "masterStatus s = ''connected''")
  case True
  then show ?thesis
    using forEachResult_frame [of "statusPromises net (deviceData s)" "fetchAll (deviceData s) s"]
    by (simp add: getAll_deviceData)
next
  case False
  then show ?thesis by (simp add: getAllDevicesStatus_def)
qed

lemma getAll_fst:
  assumes conn: "masterStatus s = ''connected''"
  shows "fst (getAllDevicesStatus net s) = (\<forall>k\<in>fst ` set (deviceData s). \<not> nullBody (net k))"
proof -
  let ?rs = "statusPromises net (deviceData s)"
  have keys: "\<forall>r\<in>set ?rs. deviceType r \<in> fst ` set (deviceData (fetchAll (deviceData s) s))"
    using statusPromises_keys by simp
  have "(\<forall>r\<in>set ?rs. res_status r \<noteq> JsonNull) = (\<forall>k\<in>fst ` set (deviceData s). \<not> nullBody (net k))"
    by (force simp: statusPromises_def statusPromise_null)
  then show ?thesis
    by (simp add: getAll_unfold [OF conn] forEachResult_fst [OF keys])
qed

lemma getAll_independent:
  assumes conn: "masterStatus s = ''connected''" and dist: "distinct (map fst (deviceData s))"
    and agree: "\<forall>k. k \<noteq> X \<longrightarrow> net' k = net k"
    and nn: "\<not> nullBody (net X)" and nn': "\<not> nullBody (net' X)" and Y: "Y \<noteq> X"
  shows "map_of (deviceData (snd (getAllDevicesStatus net' s))) Y =
         map_of (deviceData (snd (getAllDevicesStatus net s))) Y"
proof (cases "map_of (deviceData s) Y")
  case None
  then have k: "Y \<notin> fst ` set (deviceData s)"
    by (simp add: map_of_eq_None_iff)
  have "fst ` set (deviceData (snd (getAllDevicesStatus n s))) = fst ` set (deviceData s)" for n
    using getAll_keys [of n s] by (metis list.set_map)
  then have "map_of (deviceData (snd (getAllDevicesStatus n s))) Y = None" for n
    using k by (simp add: map_of_eq_None_iff)
  then show ?thesis by simp
next
  case (Some d)
  show ?thesis
    unfolding getAll_device [OF conn dist Some]
    by (simp only: find_processed_agree [OF agree nn nn' Y])
qed

lemma mergeStatus_offline:
  "syncDevice \<lparr>resp_status = Some ''offline'', resp_error = Some m, last_seen = None,
      resp_instances = None, device_info = None\<rparr> d = d\<lparr>status := ''offline'', instances := []\<rparr>"
  by (simp add: syncDevice_def mergeStatus_def orElse_def truthy_def)

lemmas eval_defs = getAllDevicesStatus_def fetchAll_def statusPromises_def statusPromise_def
  updateFromResult_def offlineResult_def mergeStatus_def assignDeviceInfo_def updateDevice_def
  refreshSingleDevice_def deviceAt_def fetchedObject_def nullBody_def fetchFailure_def
  orElse_def truthy_def ok_def okResponse_def Let_def logs_addLog cap_100 noInfo_def
  onlineData_def replacedData_def transitionEntry_def refreshEntry_def logAll_def

lemma onlineState_simps:
  "masterStatus onlineState = ''connected''"
  "deviceData onlineState =
     map (\<lambda>(k, d). (k, d\<lparr>status := ''online'', instances := [instance1],
                          lastSeen := Some ''2024-05-01T10:00:00Z''\<rparr>)) initialDeviceData"
  "logs onlineState =
     [\<lparr>message = ''Evil Twin AP: Status changed from offline to online'', log_type = ''success''\<rparr>,
      \<lparr>message = ''Ethernet Tap: Status changed from offline to online'', log_type = ''success''\<rparr>,
      \<lparr>message = ''Keystroke Injector: Status changed from offline to online'',
        log_type = ''success''\<rparr>,
      \<lparr>message = ''Keylogger: Status changed from offline to online'', log_type = ''success''\<rparr>,
      \<lparr>message = ''Master device connection established'', log_type = ''success''\<rparr>]"
  by (simp_all add: onlineState_def eval_defs connectedState_simps initialDeviceData_def
      allOnline_def)

subsection \<open>Status transitions\<close>

text \<open>
  C2 (as amended). Provided no fetched response carries a \<open>status\<close> inside its
  \<open>device_info\<close>, the entries that \<open>getAllDevicesStatus\<close> records are, in the order
  of the registry, exactly one entry for each device whose status after the sync differs from
  its status before (of type success when the new status is online, warning otherwise) and
  none for a device whose status is the same, followed by the one error entry of the outer
  \<open>catch\<close> when the loop was cut short. \<open>refreshSingleDevice\<close> records one such entry
  when the status of its device changed and none otherwise.
\<close>

theorem status_transition_logged_once:
  assumes conn: "masterStatus s = ''connected''" and dist: "distinct (map fst (deviceData s))"
    and keeps: "\<forall>k\<in>fst ` set (deviceData s). \<forall>st. fetchedObject (net k) = Some st \<longrightarrow> keepsStatus st"
  shows "logs (snd (getAllDevicesStatus net s)) =
           logAll (concat (map (\<lambda>(k, d). transitionEntry d
                                   (deviceAt (snd (getAllDevicesStatus net s)) k)) (deviceData s))
                   @ (if fst (getAllDevicesStatus net s) then []
                      else [\<lparr>message = ''Failed to update device status'', log_type = ''error''\<rparr>]))
             (logs s)
         \<and> logs (snd (refreshSingleDevice k f s)) =
             logAll (case map_of (deviceData s) k of
                       None \<Rightarrow> []
                     | Some d \<Rightarrow> refreshEntry d (deviceAt (snd (refreshSingleDevice k f s)) k))
               (logs s)"
proof -
  let ?s1 = "fetchAll (deviceData s) s"
  let ?rs = "statusPromises net (deviceData s)"
  let ?s2 = "snd (forEachResult ?rs ?s1)"
  let ?s' = "snd (getAllDevicesStatus net s)"
  have 1: "distinct (map deviceType ?rs)" using dist by simp
  have 2: "\<forall>r\<in>set ?rs. deviceType r \<in> fst ` set (deviceData ?s1)"
    using statusPromises_keys by simp
  have 3: "\<forall>r\<in>set ?rs. \<forall>st. res_status r = JsonObj st \<longrightarrow> keepsStatus st"
    using keeps by (rule keeps_results)
  have at: "deviceAt ?s2 k' = deviceAt ?s' k'" for k'
    by (simp add: deviceAt_def getAll_deviceData [OF conn])
  have "map (\<lambda>r. transitionEntry (deviceAt ?s1 (deviceType r)) (deviceAt ?s2 (deviceType r))) ?rs
      = map (\<lambda>(k, d). transitionEntry (deviceAt s k) (deviceAt ?s' k)) (deviceData s)"
  proof -
    have "deviceAt ?s1 k' = deviceAt s k'" for k' by (simp add: deviceAt_def)
    then show ?thesis
      using map_statusPromises [of "\<lambda>k. transitionEntry (deviceAt ?s1 k) (deviceAt ?s2 k)"
          net "deviceData s"]
      by (simp only: at)
  qed
  also have "\<dots> = map (\<lambda>(k, d). transitionEntry d (deviceAt ?s' k)) (deviceData s)"
  proof (rule map_cong [OF refl])
    fix x assume x: "x \<in> set (deviceData s)"
    obtain k' d' where kd: "x = (k', d')" by (cases x)
    then have "map_of (deviceData s) k' = Some d'" using x dist by simp
    then show "(case x of (k, d) \<Rightarrow> transitionEntry (deviceAt s k) (deviceAt ?s' k))
        = (case x of (k, d) \<Rightarrow> transitionEntry d (deviceAt ?s' k))"
      by (simp add: kd deviceAt_def)
  qed
  finally have entries:
    "map (\<lambda>r. transitionEntry (deviceAt ?s1 (deviceType r)) (deviceAt ?s2 (deviceType r))) ?rs
      = map (\<lambda>(k, d). transitionEntry d (deviceAt ?s' k)) (deviceData s)" .
  have "logs ?s2 = logAll (concat (map (\<lambda>(k, d). transitionEntry d (deviceAt ?s' k))
      (deviceData s))) (logs s)"
    using forEachResult_logs [OF 1 2 3] by (simp only: entries fetchAll_frame)
  then have all: "logs ?s' =
           logAll (concat (map (\<lambda>(k, d). transitionEntry d (deviceAt ?s' k)) (deviceData s))
                   @ (if fst (getAllDevicesStatus net s) then []
                      else [\<lparr>message = ''Failed to update device status'', log_type = ''error''\<rparr>]))
             (logs s)"
    by (simp only: getAll_logs [OF conn] logAll_append)
  show ?thesis using all refresh_logs [of k f s] by (rule conjI)
qed

theorem status_transition_logged_once_witness:
  "masterStatus connectedState = ''connected''
   \<and> distinct (map fst (deviceData connectedState))
   \<and> map_option status (map_of (deviceData (snd (getAllDevicesStatus keyloggerOnline connectedState)))
        ''keylogger'') = Some ''online''
   \<and> logs (snd (getAllDevicesStatus keyloggerOnline connectedState)) =
       [\<lparr>message = ''Keylogger: Status changed from offline to online'', log_type = ''success''\<rparr>,
        \<lparr>message = ''Master device connection established'', log_type = ''success''\<rparr>]
   \<and> logs (snd (getAllDevicesStatus allUnreachable onlineState)) =
       [\<lparr>message = ''Evil Twin AP: Status changed from online to offline'', log_type = ''warning''\<rparr>,
        \<lparr>message = ''Ethernet Tap: Status changed from online to offline'', log_type = ''warning''\<rparr>,
        \<lparr>message = ''Keystroke Injector: Status changed from online to offline'',
          log_type = ''warning''\<rparr>,
        \<lparr>message = ''Keylogger: Status changed from online to offline'', log_type = ''warning''\<rparr>]
       @ logs onlineState
   \<and> logs (snd (refreshSingleDevice ''keylogger'' (okResponse (JsonObj onlineData)) onlineState)) =
       logs onlineState"
proof -
  have h1: "masterStatus connectedState = ''connected''"
    by (simp add: connectedState_simps)
  have h2: "distinct (map fst (deviceData connectedState))"
    by (simp add: connectedState_simps initialDeviceData_def)
  have h3: "\<forall>k\<in>fst ` set (deviceData connectedState).
      \<forall>st. fetchedObject (keyloggerOnline k) = Some st \<longrightarrow> keepsStatus st"
    by (simp add: connectedState_simps initialDeviceData_def keyloggerOnline_def eval_defs
        keepsStatus_def)
  have g1: "masterStatus onlineState = ''connected''"
    by (simp add: onlineState_simps)
  have g2: "distinct (map fst (deviceData onlineState))"
    by (simp add: onlineState_simps initialDeviceData_def)
  have g3: "\<forall>k\<in>fst ` set (deviceData onlineState).
      \<forall>st. fetchedObject (allUnreachable k) = Some st \<longrightarrow> keepsStatus st"
    by (simp add: allUnreachable_def fetchedObject_def)
  show ?thesis
    using h1 h2
      status_transition_logged_once [OF h1 h2 h3, of "''keylogger''" "Rejected ''unreachable''"]
      status_transition_logged_once [OF g1 g2 g3, of "''keylogger''"
        "okResponse (JsonObj onlineData)"]
    by (simp add: eval_defs connectedState_simps onlineState_simps initialDeviceData_def
        keyloggerOnline_def allUnreachable_def)
qed

text \<open>
  The claim as it was stated fails: a response with status offline whose \<open>device_info\<close>
  carries status online takes the keylogger from offline to online, and nothing is logged.
\<close>

theorem status_transition_counterexample:
  "map_option status (map_of (deviceData connectedState) ''keylogger'') = Some ''offline''
   \<and> map_option status (map_of (deviceData (snd (getAllDevicesStatus infoStatus connectedState)))
        ''keylogger'') = Some ''online''
   \<and> logs (snd (getAllDevicesStatus infoStatus connectedState)) = logs connectedState"
  by (simp add: eval_defs connectedState_simps initialDeviceData_def infoStatus_def)

subsection \<open>Instances\<close>

text \<open>
  C3 (as amended). For every status fetch that answers 2xx with a JSON object, the
  \<open>instances\<close> of the device are afterwards exactly the list the object carries under
  \<open>instances\<close> (empty when it carries none), whatever was stored before:
  in \<open>refreshSingleDevice\<close> always; in \<open>getAllDevicesStatus\<close> provided no device earlier
  in the registry answered with a \<open>null\<close> body and the object's \<open>device_info\<close>
  carries no \<open>instances\<close> of its own.
\<close>

theorem instances_replaced_by_fetched_list:
  assumes obj: "fetchedObject f = Some st"
  shows "(masterStatus s = ''connected'' \<longrightarrow> distinct (map fst (deviceData s)) \<longrightarrow>
            deviceData s = pre @ (k, d) # post \<longrightarrow>
            (\<forall>k'\<in>fst ` set pre. \<not> nullBody (net k')) \<longrightarrow> net k = f \<longrightarrow> keepsInstances st \<longrightarrow>
            instances (deviceAt (snd (getAllDevicesStatus net s)) k) =
              (case resp_instances st of None \<Rightarrow> [] | Some l \<Rightarrow> l))
         \<and> (map_of (deviceData s) k = Some d \<longrightarrow>
            instances (deviceAt (snd (refreshSingleDevice k f s)) k) =
              (case resp_instances st of None \<Rightarrow> [] | Some l \<Rightarrow> l))"
proof (intro conjI impI)
  assume conn: "masterStatus s = ''connected''" and dist: "distinct (map fst (deviceData s))"
    and split: "deviceData s = pre @ (k, d) # post"
    and pre: "\<forall>k'\<in>fst ` set pre. \<not> nullBody (net k')" and net: "net k = f"
    and keeps: "keepsInstances st"
  have "res_status (statusPromise (net k) k) = JsonObj st"
    using obj net by (simp add: statusPromise_object)
  then have "map_of (deviceData (snd (getAllDevicesStatus net s))) k = Some (syncDevice st d)"
    by (rule getAll_device_processed [OF conn dist split pre])
  then show "instances (deviceAt (snd (getAllDevicesStatus net s)) k) =
      (case resp_instances st of None \<Rightarrow> [] | Some l \<Rightarrow> l)"
    using keeps by (simp add: deviceAt_def instances_syncDevice)
next
  assume "map_of (deviceData s) k = Some d"
  then show "instances (deviceAt (snd (refreshSingleDevice k f s)) k) =
      (case resp_instances st of None \<Rightarrow> [] | Some l \<Rightarrow> l)"
    using obj by (simp add: refresh_device mergeStatus_def)
qed

theorem instances_replaced_by_fetched_list_witness:
  "fetchedObject (okResponse (JsonObj replacedData)) = Some replacedData
   \<and> resp_instances replacedData = Some [instance2]
   \<and> instances (deviceAt onlineState ''keystroke_injector'') = [instance1]
   \<and> instances (deviceAt (snd (getAllDevicesStatus allReplaced onlineState))
         ''keystroke_injector'') = [instance2]
   \<and> instances (deviceAt (snd (refreshSingleDevice ''keystroke_injector''
         (okResponse (JsonObj replacedData)) onlineState)) ''keystroke_injector'') = [instance2]"
proof -
  let ?f = "okResponse (JsonObj replacedData)"
  let ?d = "snd (deviceData onlineState ! 1)"
  have obj: "fetchedObject ?f = Some replacedData"
    by (simp add: fetchedObject_def okResponse_def ok_def)
  have h1: "masterStatus onlineState = ''connected''"
    by (simp add: onlineState_simps)
  have h2: "distinct (map fst (deviceData onlineState))"
    by (simp add: onlineState_simps initialDeviceData_def)
  have h3: "deviceData onlineState =
      take 1 (deviceData onlineState) @ (''keystroke_injector'', ?d) # drop 2 (deviceData onlineState)"
    by (simp add: onlineState_simps initialDeviceData_def)
  have h4: "\<forall>k'\<in>fst ` set (take 1 (deviceData onlineState)). \<not> nullBody (allReplaced k')"
    by (simp add: allReplaced_def nullBody_def okResponse_def)
  have h5: "allReplaced ''keystroke_injector'' = ?f"
    by (simp add: allReplaced_def)
  have h6: "keepsInstances replacedData"
    by (simp add: keepsInstances_def replacedData_def)
  have h7: "map_of (deviceData onlineState) ''keystroke_injector'' = Some ?d"
    by (simp add: onlineState_simps initialDeviceData_def)
  have before: "instances (deviceAt onlineState ''keystroke_injector'') = [instance1]"
    by (simp add: deviceAt_def onlineState_simps initialDeviceData_def)
  show ?thesis
    using instances_replaced_by_fetched_list [OF obj, of onlineState
        "take 1 (deviceData onlineState)" "''keystroke_injector''" ?d
        "drop 2 (deviceData onlineState)" allReplaced]
      obj h1 h2 h3 h4 h5 h6 h7 before
    by (simp add: replacedData_def)
qed

text \<open>
  The claim as it was stated fails in \<open>getAllDevicesStatus\<close>: \<open>instances\<close> inside
  \<open>device_info\<close> replace the fetched list; and after a \<open>null\<close> body for the
  keylogger the list fetched for the evil twin is never stored.
\<close>

theorem instances_replaced_counterexample:
  "fetchedObject (infoInstances ''keylogger'') =
      Some \<lparr>resp_status = Some ''online'', resp_error = None, last_seen = None,
        resp_instances = Some [instance2],
        device_info = Some (noInfo\<lparr>di_instances := Some [instance1]\<rparr>)\<rparr>
   \<and> instances (deviceAt (snd (getAllDevicesStatus infoInstances connectedState)) ''keylogger'') =
       [instance1]
   \<and> instance1 \<noteq> instance2
   \<and> fetchedObject (nullThenOnline ''evil_twin'') = Some onlineData
   \<and> resp_instances onlineData = Some [instance1]
   \<and> instances (deviceAt (snd (getAllDevicesStatus nullThenOnline connectedState)) ''evil_twin'') = []"
  by (simp add: eval_defs connectedState_simps initialDeviceData_def infoInstances_def
      nullThenOnline_def instance1_def instance2_def)

subsection \<open>The last liveness timestamp\<close>

text \<open>
  C10 (as amended). A status sync whose fetch delivers no \<open>last_seen\<close> (every failed
  fetch among them) leaves \<open>lastSeen\<close> of the device as it was: in
  \<open>refreshSingleDevice\<close> always, in \<open>getAllDevicesStatus\<close> provided the
  \<open>device_info\<close> of the response carries no \<open>lastSeen\<close>.
\<close>

theorem lastSeen_kept_without_last_seen:
  assumes d: "map_of (deviceData s) k = Some d"
    and none: "\<forall>st. fetchedObject f = Some st \<longrightarrow> \<not> truthy (last_seen st)"
  shows "(distinct (map fst (deviceData s)) \<longrightarrow> net k = f \<longrightarrow>
            (\<forall>st. fetchedObject f = Some st \<longrightarrow> keepsLastSeen st) \<longrightarrow>
            lastSeen (deviceAt (snd (getAllDevicesStatus net s)) k) = lastSeen d)
         \<and> lastSeen (deviceAt (snd (refreshSingleDevice k f s)) k) = lastSeen d"
proof (intro conjI impI)
  assume dist: "distinct (map fst (deviceData s))" and net: "net k = f"
    and keeps: "\<forall>st. fetchedObject f = Some st \<longrightarrow> keepsLastSeen st"
  from getAll_device_cases [OF dist d, of net]
  show "lastSeen (deviceAt (snd (getAllDevicesStatus net s)) k) = lastSeen d"
  proof
    assume "map_of (deviceData (snd (getAllDevicesStatus net s))) k = Some d"
    then show ?thesis by (simp add: deviceAt_def)
  next
    assume "\<exists>st. res_status (statusPromise (net k) k) = JsonObj st
           \<and> map_of (deviceData (snd (getAllDevicesStatus net s))) k = Some (syncDevice st d)"
    then obtain st where obj: "res_status (statusPromise (net k) k) = JsonObj st"
      and after: "map_of (deviceData (snd (getAllDevicesStatus net s))) k = Some (syncDevice st d)"
      by blast
    have "\<not> truthy (last_seen st) \<and> keepsLastSeen st"
      using statusPromise_JsonObj [OF obj] none keeps net
      by (auto simp: truthy_def keepsLastSeen_def)
    then show ?thesis using after by (simp add: deviceAt_def lastSeen_syncDevice)
  qed
next
  show "lastSeen (deviceAt (snd (refreshSingleDevice k f s)) k) = lastSeen d"
    using d none by (cases "fetchedObject f") (simp_all add: refresh_device mergeStatus_def)
qed

theorem lastSeen_kept_without_last_seen_witness:
  "lastSeen (deviceAt onlineState ''keylogger'') = Some ''2024-05-01T10:00:00Z''
   \<and> fetchedObject (allUnreachable ''keylogger'') = None
   \<and> status (deviceAt (snd (getAllDevicesStatus allUnreachable onlineState)) ''keylogger'') =
       ''offline''
   \<and> lastSeen (deviceAt (snd (getAllDevicesStatus allUnreachable onlineState)) ''keylogger'') =
       Some ''2024-05-01T10:00:00Z''
   \<and> lastSeen (deviceAt (snd (refreshSingleDevice ''keylogger'' (okResponse (JsonObj replacedData))
         onlineState)) ''keylogger'') = Some ''2024-05-01T10:00:00Z''"
proof -
  let ?d = "snd (hd (deviceData onlineState))"
  have d: "map_of (deviceData onlineState) ''keylogger'' = Some ?d"
    by (simp add: onlineState_simps initialDeviceData_def)
  have ls: "lastSeen ?d = Some ''2024-05-01T10:00:00Z''"
    by (simp add: onlineState_simps initialDeviceData_def)
  have n1: "\<forall>st. fetchedObject (Rejected ''unreachable'' :: statusData fetched) = Some st
      \<longrightarrow> \<not> truthy (last_seen st)"
    by (simp add: fetchedObject_def)
  have n2: "\<forall>st. fetchedObject (okResponse (JsonObj replacedData)) = Some st
      \<longrightarrow> \<not> truthy (last_seen st)"
    by (simp add: fetchedObject_def okResponse_def ok_def replacedData_def truthy_def)
  have h2: "distinct (map fst (deviceData onlineState))"
    by (simp add: onlineState_simps initialDeviceData_def)
  have h3: "allUnreachable ''keylogger'' = Rejected ''unreachable''"
    by (simp add: allUnreachable_def)
  have h4: "\<forall>st. fetchedObject (Rejected ''unreachable'' :: statusData fetched) = Some st
      \<longrightarrow> keepsLastSeen st"
    by (simp add: fetchedObject_def)
  have st: "status (deviceAt (snd (getAllDevicesStatus allUnreachable onlineState)) ''keylogger'')
      = ''offline''"
    by (simp add: eval_defs onlineState_simps initialDeviceData_def allUnreachable_def)
  show ?thesis
    using lastSeen_kept_without_last_seen [OF d n1, of allUnreachable]
      lastSeen_kept_without_last_seen [OF d n2, of allUnreachable]
      d ls h2 h3 h4 st
    by (simp add: deviceAt_def fetchedObject_def)
qed

text \<open>
  The claim as it was stated fails: a response without \<open>last_seen\<close> whose
  \<open>device_info\<close> carries \<open>lastSeen\<close> overwrites the field.
\<close>

theorem lastSeen_kept_counterexample:
  "lastSeen (deviceAt connectedState ''keylogger'') = None
   \<and> fetchedObject (infoLastSeen ''keylogger'') =
      Some \<lparr>resp_status = Some ''online'', resp_error = None, last_seen = None,
        resp_instances = None,
        device_info = Some (noInfo\<lparr>di_lastSeen := Some (Some ''2024-05-02T08:00:00Z'')\<rparr>)\<rparr>
   \<and> lastSeen (deviceAt (snd (getAllDevicesStatus infoLastSeen connectedState)) ''keylogger'') =
       Some ''2024-05-02T08:00:00Z''"
  by (simp add: eval_defs connectedState_simps initialDeviceData_def infoLastSeen_def)

subsection \<open>Failures of single status requests\<close>

text \<open>
  When no device earlier in the registry answered 200 with the body \<open>null\<close>, a device
  \<open>X\<close> whose fetch failed gets the status offline and no instances, the rest of its
  record staying; and the record of every other device is the same as it is with any other
  outcome for \<open>X\<close> that is not a \<open>null\<close> body.
\<close>

lemma getAllDevicesStatus_isolated_without_null_body:
  assumes conn: "masterStatus s = ''connected''" and dist: "distinct (map fst (deviceData s))"
    and split: "deviceData s = pre @ (X, d) # post"
    and fail: "fetchFailure (net X) = Some reason"
  shows "((\<forall>k\<in>fst ` set pre. \<not> nullBody (net k)) \<longrightarrow>
              map_of (deviceData (snd (getAllDevicesStatus net s))) X =
                Some (d\<lparr>status := ''offline'', instances := []\<rparr>))
         \<and> (\<forall>net' Y. (\<forall>k. k \<noteq> X \<longrightarrow> net' k = net k) \<longrightarrow> \<not> nullBody (net' X) \<longrightarrow> Y \<noteq> X \<longrightarrow>
              map_of (deviceData (snd (getAllDevicesStatus net' s))) Y =
              map_of (deviceData (snd (getAllDevicesStatus net s))) Y)"
proof (intro conjI impI allI)
  have res: "statusPromise (net X) X = offlineResult X reason"
    using fail by (rule statusPromise_failure)
  have nn: "\<not> nullBody (net X)"
    using res statusPromise_null [of "net X" X] by (simp add: offlineResult_def)
  {
    assume pre: "\<forall>k\<in>fst ` set pre. \<not> nullBody (net k)"
    have "res_status (statusPromise (net X) X) =
        JsonObj \<lparr>resp_status = Some ''offline'', resp_error = Some reason, last_seen = None,
          resp_instances = None, device_info = None\<rparr>"
      by (simp add: res offlineResult_def)
    from getAll_device_processed [OF conn dist split pre this]
    show "map_of (deviceData (snd (getAllDevicesStatus net s))) X =
        Some (d\<lparr>status := ''offline'', instances := []\<rparr>)"
      by (simp only: mergeStatus_offline)
  }
  {
    fix net' Y
    assume a: "\<forall>k. k \<noteq> X \<longrightarrow> net' k = net k" and b: "\<not> nullBody (net' X)" and c: "Y \<noteq> X"
    show "map_of (deviceData (snd (getAllDevicesStatus net' s))) Y =
        map_of (deviceData (snd (getAllDevicesStatus net s))) Y"
      by (rule getAll_independent [OF conn dist a nn b c])
  }
qed

text \<open>
  C4. Each status request of \<open>getAllDevicesStatus\<close> is meant to succeed or fail on its
  own: the inner \<open>try\<close> turns a failed fetch for a device \<open>X\<close> into the result
  offline with the reason of the failure, so that the status of \<open>X\<close> becomes offline and
  no other record is touched. The code misses a case. A response 200 with the body
  \<open>null\<close> is passed on as a success; reading \<open>status.status\<close> of it throws in the
  callback of \<open>forEach\<close>, and the outer \<open>catch\<close> ends the update. With all four
  devices online, the keylogger answering 200 with \<open>null\<close> and the three other fetches
  rejected, the evil twin, whose fetch failed, stays online, and the call returns
  \<open>false\<close>. Nor is the reason of a failure recorded: it sits in the field
  \<open>error\<close> of the result, which nothing reads, so that a sync in which every fetch is
  rejected with \<open>unreachable\<close> and one in which every fetch is rejected with
  \<open>timeout\<close> return the same value and leave the same state.
\<close>

theorem getAllDevicesStatus_failure_not_isolated:
  "masterStatus onlineState = ''connected''
   \<and> status (deviceAt onlineState ''evil_twin'') = ''online''
   \<and> fetchFailure (nullThenUnreachable ''evil_twin'') = Some ''unreachable''
   \<and> status (deviceAt (snd (getAllDevicesStatus nullThenUnreachable onlineState)) ''evil_twin'') =
       ''online''
   \<and> \<not> fst (getAllDevicesStatus nullThenUnreachable onlineState)
   \<and> fetchFailure (allUnreachable ''evil_twin'') = Some ''unreachable''
   \<and> fetchFailure (allTimedOut ''evil_twin'') = Some ''timeout''
   \<and> getAllDevicesStatus allUnreachable onlineState = getAllDevicesStatus allTimedOut onlineState"
  by (simp add: eval_defs onlineState_simps initialDeviceData_def nullThenUnreachable_def
      allUnreachable_def allTimedOut_def)

end
